theory Spec2Isabelle
  imports Main
begin

section \<open>The page: embedded state and document\<close>

text \<open>
  The scripts of \<^verbatim>\<open>static/app.js\<close> read the state that the server embeds in the
  page (\<^verbatim>\<open>window.__SLIDE__\<close>, \<^verbatim>\<open>window.__GAME__\<close>, \<^verbatim>\<open>window.__GAME_ID__\<close>,
  \<^verbatim>\<open>window.__SCORES__\<close>, \<^verbatim>\<open>window.__PDF_URL__\<close>) and look their elements up by id.
  A property that is absent (\<^verbatim>\<open>undefined\<close>) or \<^verbatim>\<open>null\<close> is \<open>None\<close>; an uncaught
  exception is a value of \<open>js_error\<close>. Numbers are the integers of the embedded JSON.
  JavaScript adds them as IEEE-754 doubles, which is exact on integers as long as the
  operands and the sum are below \<open>2^53\<close> in magnitude; the model adds integers, and a
  statement that chains additions carries that range as a hypothesis (\<open>exact_ops\<close>).
\<close>

datatype js_error = TypeError | NetworkError

text \<open>
  A page of a slide deck is a bare string, an object with optional \<^verbatim>\<open>title\<close> and
  \<^verbatim>\<open>content\<close>, or a falsy value (\<^verbatim>\<open>null\<close>, or \<^verbatim>\<open>undefined\<close> read past the end).
\<close>

datatype page = PageString string | PageObject "string option" "string option" | PageNull

record slide =
  pages :: "page list option"

record question =
  q :: string
  a :: string
  points :: int
  qtype :: "string option"

record game =
  questions :: "question list option"

record scores =
  saved_scoreA :: "int option"
  saved_scoreB :: "int option"

record window =
  SLIDE :: "slide option"
  GAME :: "game option"
  GAME_ID :: string
  SCORES :: "scores option"
  PDF_URL :: "string option"
  elements :: "string list"

text \<open>\<^verbatim>\<open>document.getElementById(id)\<close>: \<open>True\<close> for an element, \<open>False\<close> for \<^verbatim>\<open>null\<close>.\<close>

definition getElementById :: "window \<Rightarrow> string \<Rightarrow> bool" where
  "getElementById w i = (i \<in> set (elements w))"


section \<open>Slide player\<close>

text \<open>
  What \<^verbatim>\<open>render\<close> writes to the page. The two counters are the template strings
  \<^verbatim>\<open>`${idx + 1}/${total}`\<close> and \<^verbatim>\<open>`${idx + 1} / ${total}`\<close>, kept as the pair of
  numbers they print.
\<close>

record slide_view =
  titleText :: string
  contentText :: string
  countText :: "int \<times> int"
  monoText :: "int \<times> int"
  prevDisabled :: bool
  nextDisabled :: bool

record slide_player =
  sp_pages :: "page list"
  idx :: int
  view :: slide_view

text \<open>\<^verbatim>\<open>slide.pages[idx]\<close>: reading outside the array gives \<^verbatim>\<open>undefined\<close>.\<close>

definition page_at :: "page list \<Rightarrow> int \<Rightarrow> page" where
  "page_at ps i = (if 0 \<le> i \<and> i < int (length ps) then ps ! nat i else PageNull)"

text \<open>\<^verbatim>\<open>normalizePage\<close>, returning the object's \<^verbatim>\<open>title\<close> and \<^verbatim>\<open>content\<close>.\<close>

fun normalizePage :: "page \<Rightarrow> string option \<times> string option" where
  "normalizePage (PageString p) = (Some p, Some [])"
| "normalizePage (PageObject t c) = (t, c)"
| "normalizePage PageNull = (Some ''Page'', Some [])"

text \<open>\<^verbatim>\<open>x || ""\<close> on an optional string.\<close>

definition or_empty :: "string option \<Rightarrow> string" where
  "or_empty x = (case x of None \<Rightarrow> [] | Some s \<Rightarrow> s)"

definition render_view :: "page list \<Rightarrow> int \<Rightarrow> slide_view" where
  "render_view ps i =
     (let total = int (length ps);
          p = normalizePage (page_at ps i)
      in \<lparr> titleText = or_empty (fst p),
           contentText = or_empty (snd p),
           countText = (i + 1, total),
           monoText = (i + 1, total),
           prevDisabled = (i = 0),
           nextDisabled = (i = total - 1) \<rparr>)"

text \<open>
  \<^verbatim>\<open>render\<close> as the initialisation runs it: \<^verbatim>\<open>slide.pages.length\<close> throws when
  \<^verbatim>\<open>pages\<close> is absent, and each write to an element that was not found throws.
\<close>

definition render :: "window \<Rightarrow> slide \<Rightarrow> int \<Rightarrow> js_error + slide_view" where
  "render w s i =
     (case pages s of
        None \<Rightarrow> Inl TypeError
      | Some ps \<Rightarrow>
          if getElementById w ''pageTitle'' \<and> getElementById w ''pageContent''
             \<and> getElementById w ''pageCount'' \<and> getElementById w ''pageMono''
             \<and> getElementById w ''prevBtn'' \<and> getElementById w ''nextBtn''
          then Inr (render_view ps i)
          else Inl TypeError)"

text \<open>
  \<^verbatim>\<open>initSlidePlayer\<close>: \<open>Inr None\<close> is the early return (nothing registered, nothing
  rendered), \<open>Inr (Some p)\<close> the initialised player, \<open>Inl e\<close> an uncaught exception of
  the first \<^verbatim>\<open>render\<close> (the listeners registered before it stay registered; what they
  do on such a page is not modelled).
\<close>

definition initSlidePlayer :: "window \<Rightarrow> js_error + slide_player option" where
  "initSlidePlayer w =
     (case SLIDE w of
        None \<Rightarrow> Inr None
      | Some s \<Rightarrow>
          (case render w s 0 of
             Inl e \<Rightarrow> Inl e
           | Inr v \<Rightarrow>
               Inr (Some \<lparr> sp_pages = (case pages s of None \<Rightarrow> [] | Some ps \<Rightarrow> ps),
                           idx = 0, view = v \<rparr>)))"

text \<open>
  The handlers of an initialised player. The elements and \<^verbatim>\<open>slide.pages\<close> are the
  ones the first \<^verbatim>\<open>render\<close> has used, so \<^verbatim>\<open>render\<close> cannot throw here.
\<close>

definition rerender :: "slide_player \<Rightarrow> slide_player" where
  "rerender p = p\<lparr> view := render_view (sp_pages p) (idx p) \<rparr>"

definition prevClick :: "slide_player \<Rightarrow> slide_player" where
  "prevClick p = rerender (p\<lparr> idx := max 0 (idx p - 1) \<rparr>)"

definition nextClick :: "slide_player \<Rightarrow> slide_player" where
  "nextClick p = rerender (p\<lparr> idx := min (int (length (sp_pages p)) - 1) (idx p + 1) \<rparr>)"

definition slide_keydown :: "string \<Rightarrow> slide_player \<Rightarrow> slide_player" where
  "slide_keydown key p =
     (let p1 = (if key = ''ArrowLeft'' then prevClick p else p);
          p2 = (if key = ''ArrowRight'' then nextClick p1 else p1)
      in p2)"

datatype slide_event = SlidePrev | SlideNext | SlideKey string

fun slide_step :: "slide_player \<Rightarrow> slide_event \<Rightarrow> slide_player" where
  "slide_step p SlidePrev = prevClick p"
| "slide_step p SlideNext = nextClick p"
| "slide_step p (SlideKey k) = slide_keydown k p"

definition slide_run :: "slide_player \<Rightarrow> slide_event list \<Rightarrow> slide_player" where
  "slide_run p evs = foldl slide_step p evs"

text \<open>The player right after \<^verbatim>\<open>initSlidePlayer\<close> on a deck \<open>ps\<close>.\<close>

definition slide_start :: "page list \<Rightarrow> slide_player" where
  "slide_start ps = \<lparr> sp_pages = ps, idx = 0, view = render_view ps 0 \<rparr>"

definition in_range :: "slide_player \<Rightarrow> bool" where
  "in_range p = (0 \<le> idx p \<and> idx p \<le> int (length (sp_pages p)) - 1)"


section \<open>Game board\<close>

text \<open>
  A handler that throws stops where it is: \<open>Thrown e s\<close> carries the state the handler
  had reached, \<open>Returned s\<close> the state at its normal end.
\<close>

datatype 'a outcome = Returned 'a | Thrown js_error 'a

fun state_of :: "'a outcome \<Rightarrow> 'a" where
  "state_of (Returned s) = s"
| "state_of (Thrown e s) = s"

text \<open>The settled result of the promise that \<^verbatim>\<open>fetch\<close> returns.\<close>

type_synonym fetch_result = "js_error + unit"

text \<open>\<^verbatim>\<open>promise.catch(() => {})\<close>: a rejection becomes a fulfilled promise.\<close>

definition catch_ignore :: "fetch_result \<Rightarrow> fetch_result" where
  "catch_ignore r = (case r of Inl e \<Rightarrow> Inr () | Inr u \<Rightarrow> Inr u)"

text \<open>
  The label of the badge: the trap and bonus labels are fixed strings, the default one is
  \<^verbatim>\<open>`${item.points} Points`\<close>.
\<close>

datatype badge = TrapBadge | BonusBadge | PointsBadge int

text \<open>
  A card of the grid: its class, its text (\<open>None\<close> for the empty string, \<open>Some n\<close> for
  \<^verbatim>\<open>String(i + 1)\<close>) and its \<^verbatim>\<open>disabled\<close> flag.
\<close>

record card =
  card_class :: string
  card_text :: "nat option"
  card_disabled :: bool

text \<open>
  A request \<^verbatim>\<open>POST /api/games/{gameId}/scores\<close> with body \<^verbatim>\<open>{scoreA, scoreB}\<close>
  (\<^verbatim>\<open>encodeURIComponent\<close> is not applied here).
\<close>

record post =
  post_gameId :: string
  post_scoreA :: int
  post_scoreB :: int

text \<open>
  The variables that the closures of \<^verbatim>\<open>initGameBoard\<close> share, what they have written
  to the page, the requests they have sent (\<open>posts\<close>) and the rejections nobody has
  handled (\<open>unhandled\<close>). The handlers are modelled on a page that has the elements of the
  question overlay (\<^verbatim>\<open>qModal\<close>, \<^verbatim>\<open>qBadge\<close>, \<^verbatim>\<open>qTitle\<close>, \<^verbatim>\<open>qAnswer\<close>).
\<close>

record game_state =
  gs_questions :: "question list"
  gameId :: string
  scoreA :: int
  scoreB :: int
  revealed :: "nat \<rightharpoonup> bool"
  currentIndex :: "nat option"
  scoreAText :: int
  scoreBText :: int
  grid :: "card list"
  modalShown :: bool
  qBadgeClass :: string
  qBadgeText :: "badge option"
  qTitle :: string
  qAnswer :: string
  posts :: "post list"
  unhandled :: "js_error list"

text \<open>\<^verbatim>\<open>x || 0\<close> on an optional number.\<close>

definition or_zero :: "int option \<Rightarrow> int" where
  "or_zero x = (case x of None \<Rightarrow> 0 | Some n \<Rightarrow> if n = 0 then 0 else n)"

text \<open>\<^verbatim>\<open>!!revealed[i]\<close>.\<close>

definition is_revealed :: "(nat \<rightharpoonup> bool) \<Rightarrow> nat \<Rightarrow> bool" where
  "is_revealed r i = (case r i of None \<Rightarrow> False | Some b \<Rightarrow> b)"

definition renderScores :: "game_state \<Rightarrow> game_state" where
  "renderScores s = s\<lparr> scoreAText := scoreA s, scoreBText := scoreB s \<rparr>"

definition make_card :: "(nat \<rightharpoonup> bool) \<Rightarrow> nat \<Rightarrow> card" where
  "make_card r i =
     (let isRev = is_revealed r i
      in \<lparr> card_class = (if isRev then ''cardbtn disabled'' else ''cardbtn''),
           card_text = (if isRev then None else Some (i + 1)),
           card_disabled = isRev \<rparr>)"

definition renderGrid :: "game_state \<Rightarrow> game_state" where
  "renderGrid s = s\<lparr> grid := map (make_card (revealed s)) [0 ..< length (gs_questions s)] \<rparr>"

text \<open>
  \<^verbatim>\<open>saveScores\<close> sends the request with the scores of the moment of the call; the
  promise it returns settles as the fetch does.
\<close>

definition saveScores :: "fetch_result \<Rightarrow> game_state \<Rightarrow> fetch_result \<times> game_state" where
  "saveScores net s =
     (net, s\<lparr> posts := posts s @ [\<lparr> post_gameId = gameId s,
                                     post_scoreA = scoreA s, post_scoreB = scoreB s \<rparr>] \<rparr>)"

text \<open>A promise that nobody awaits: its rejection, if any, is reported as unhandled.\<close>

definition detach :: "fetch_result \<Rightarrow> game_state \<Rightarrow> game_state" where
  "detach r s = (case r of Inl e \<Rightarrow> s\<lparr> unhandled := unhandled s @ [e] \<rparr> | Inr u \<Rightarrow> s)"

text \<open>\<^verbatim>\<open>item.type || "normal"\<close>.\<close>

definition type_of_item :: "question \<Rightarrow> string" where
  "type_of_item item =
     (case qtype item of None \<Rightarrow> ''normal'' | Some t \<Rightarrow> if t = [] then ''normal'' else t)"

definition openModalFor :: "nat \<Rightarrow> game_state \<Rightarrow> game_state outcome" where
  "openModalFor index s =
     (let s1 = s\<lparr> currentIndex := Some index \<rparr>
      in if index < length (gs_questions s1) then
           (let item = gs_questions s1 ! index;
                ty = type_of_item item;
                s2 = (if ty = ''trap'' then
                        s1\<lparr> qBadgeClass := ''pill pink'', qBadgeText := Some TrapBadge \<rparr>
                      else if ty = ''bonus'' then
                        s1\<lparr> qBadgeClass := ''pill'', qBadgeText := Some BonusBadge \<rparr>
                      else
                        s1\<lparr> qBadgeClass := ''pill'',
                            qBadgeText := Some (PointsBadge (points item)) \<rparr>);
                s3 = s2\<lparr> qTitle := q item \<rparr>;
                s4 = s3\<lparr> qAnswer := a item \<rparr>
            in Returned (s4\<lparr> modalShown := True \<rparr>))
         else Thrown TypeError s1)"

definition closeModalMarkRevealed :: "game_state \<Rightarrow> game_state" where
  "closeModalMarkRevealed s =
     (let s1 = (case currentIndex s of
                  None \<Rightarrow> s
                | Some i \<Rightarrow> s\<lparr> revealed := (revealed s)(i \<mapsto> True) \<rparr>);
          s2 = s1\<lparr> modalShown := False \<rparr>;
          s3 = s2\<lparr> currentIndex := None \<rparr>
      in renderGrid s3)"

definition award :: "string \<Rightarrow> int \<Rightarrow> fetch_result \<Rightarrow> game_state \<Rightarrow> game_state" where
  "award team pointsOrZero net s =
     (let pts = pointsOrZero;
          s1 = (if team = ''A'' then s\<lparr> scoreA := scoreA s + pts \<rparr> else s);
          s2 = (if team = ''B'' then s1\<lparr> scoreB := scoreB s1 + pts \<rparr> else s1);
          s3 = renderScores s2;
          (r, s4) = saveScores net s3;
          s5 = detach (catch_ignore r) s4
      in closeModalMarkRevealed s5)"

text \<open>
  \<^verbatim>\<open>game.questions[currentIndex].points\<close>: with \<^verbatim>\<open>currentIndex\<close> \<^verbatim>\<open>null\<close> or
  outside the array the element is \<^verbatim>\<open>undefined\<close> and reading \<^verbatim>\<open>.points\<close> throws.
\<close>

definition current_points :: "game_state \<Rightarrow> js_error + int" where
  "current_points s =
     (case currentIndex s of
        None \<Rightarrow> Inl TypeError
      | Some i \<Rightarrow> if i < length (gs_questions s) then Inr (points (gs_questions s ! i))
                  else Inl TypeError)"

definition aCorrectClick :: "fetch_result \<Rightarrow> game_state \<Rightarrow> game_state outcome" where
  "aCorrectClick net s =
     (case current_points s of Inl e \<Rightarrow> Thrown e s | Inr p \<Rightarrow> Returned (award ''A'' p net s))"

definition aWrongClick :: "fetch_result \<Rightarrow> game_state \<Rightarrow> game_state" where
  "aWrongClick net s = award ''A'' 0 net s"

definition bCorrectClick :: "fetch_result \<Rightarrow> game_state \<Rightarrow> game_state outcome" where
  "bCorrectClick net s =
     (case current_points s of Inl e \<Rightarrow> Thrown e s | Inr p \<Rightarrow> Returned (award ''B'' p net s))"

definition bWrongClick :: "fetch_result \<Rightarrow> game_state \<Rightarrow> game_state" where
  "bWrongClick net s = award ''B'' 0 net s"

definition skipClick :: "game_state \<Rightarrow> game_state" where
  "skipClick s = closeModalMarkRevealed s"

text \<open>The reset handler; \<open>confirmed\<close> is what \<^verbatim>\<open>confirm(...)\<close> returns.\<close>

definition resetClick :: "bool \<Rightarrow> fetch_result \<Rightarrow> game_state \<Rightarrow> game_state" where
  "resetClick confirmed net s =
     (if \<not> confirmed then s
      else
        (let s1 = s\<lparr> scoreA := 0, scoreB := 0 \<rparr>;
             s2 = s1\<lparr> revealed := Map.empty \<rparr>;
             s3 = renderScores s2;
             s4 = renderGrid s3;
             (r, s5) = saveScores net s4
         in detach (catch_ignore r) s5))"

text \<open>A click on the backdrop of the overlay hides it and changes nothing else.\<close>

definition backdropClick :: "game_state \<Rightarrow> game_state" where
  "backdropClick s = s\<lparr> modalShown := False \<rparr>"

text \<open>
  \<^verbatim>\<open>initGameBoard\<close>: \<open>Inr None\<close> is the early return, \<open>Inr (Some s)\<close> the initialised
  board, \<open>Inl e\<close> an exception of \<^verbatim>\<open>renderScores\<close> or \<^verbatim>\<open>renderGrid\<close> (an element that
  was not found, or \<^verbatim>\<open>game.questions\<close> absent), which rejects the promise of this
  \<^verbatim>\<open>async\<close> function. The overlay starts hidden and empty.
\<close>

definition initial_scoreA :: "window \<Rightarrow> int" where
  "initial_scoreA w = or_zero (case SCORES w of None \<Rightarrow> None | Some sc \<Rightarrow> saved_scoreA sc)"

definition initial_scoreB :: "window \<Rightarrow> int" where
  "initial_scoreB w = or_zero (case SCORES w of None \<Rightarrow> None | Some sc \<Rightarrow> saved_scoreB sc)"

definition initGameBoard :: "window \<Rightarrow> js_error + game_state option" where
  "initGameBoard w =
     (case GAME w of
        None \<Rightarrow> Inr None
      | Some g \<Rightarrow>
          if \<not> (getElementById w ''scoreA'' \<and> getElementById w ''scoreB'') then Inl TypeError
          else if \<not> getElementById w ''cardsGrid'' then Inl TypeError
          else (case questions g of
                  None \<Rightarrow> Inl TypeError
                | Some qs \<Rightarrow>
                    Inr (Some (renderGrid (renderScores
                      \<lparr> gs_questions = qs, gameId = GAME_ID w,
                        scoreA = initial_scoreA w, scoreB = initial_scoreB w,
                        revealed = Map.empty, currentIndex = None,
                        scoreAText = 0, scoreBText = 0, grid = [],
                        modalShown = False, qBadgeClass = [], qBadgeText = None,
                        qTitle = [], qAnswer = [], posts = [], unhandled = [] \<rparr>)))))"

text \<open>
  The script \<^verbatim>\<open>app.js\<close> as the page loads it: after the click listener of the modals it
  runs \<^verbatim>\<open>initSlidePlayer\<close>, a synchronous function whose exception stops the script, and
  only then \<^verbatim>\<open>initGameBoard\<close>, an \<^verbatim>\<open>async\<close> function whose exception rejects its promise
  and stops nothing. \<open>Inl e\<close> is a script stopped by the slide player, before the board
  was reached; \<open>Inr ld\<close> holds what the two functions have left. (The viewer is a module
  of its own, see \<open>initPdfViewer\<close>.)
\<close>

record app_load =
  slide_widget :: "slide_player option"
  game_widget :: "js_error + game_state option"

definition load_app :: "window \<Rightarrow> js_error + app_load" where
  "load_app w =
     (case initSlidePlayer w of
        Inl e \<Rightarrow> Inl e
      | Inr sp \<Rightarrow> Inr \<lparr> slide_widget = sp, game_widget = initGameBoard w \<rparr>)"

text \<open>
  The events of the board. A card is clicked only where the grid has an enabled button;
  a handler that throws leaves the state it had reached and the page goes on.
\<close>

datatype game_event =
    CardClick nat
  | ACorrect fetch_result
  | AWrong fetch_result
  | BCorrect fetch_result
  | BWrong fetch_result
  | SkipClick
  | ResetClick bool fetch_result
  | BackdropClick

fun game_step :: "game_state \<Rightarrow> game_event \<Rightarrow> game_state" where
  "game_step s (CardClick i) =
     (if i < length (grid s) \<and> \<not> card_disabled (grid s ! i) then state_of (openModalFor i s)
      else s)"
| "game_step s (ACorrect net) = state_of (aCorrectClick net s)"
| "game_step s (AWrong net) = aWrongClick net s"
| "game_step s (BCorrect net) = state_of (bCorrectClick net s)"
| "game_step s (BWrong net) = bWrongClick net s"
| "game_step s SkipClick = skipClick s"
| "game_step s (ResetClick c net) = resetClick c net s"
| "game_step s BackdropClick = backdropClick s"

definition game_run :: "game_state \<Rightarrow> game_event list \<Rightarrow> game_state" where
  "game_run s evs = foldl game_step s evs"

text \<open>
  The operations of the board as the specification names them: \<^verbatim>\<open>award(team, points)\<close>,
  \<^verbatim>\<open>skip()\<close> and \<^verbatim>\<open>reset()\<close> with the answer given to its confirmation.
\<close>

datatype game_op = Award string int fetch_result | Skip | Reset bool fetch_result

fun apply_op :: "game_state \<Rightarrow> game_op \<Rightarrow> game_state" where
  "apply_op s (Award team p net) = award team p net s"
| "apply_op s Skip = skipClick s"
| "apply_op s (Reset c net) = resetClick c net s"

definition game_ops :: "game_state \<Rightarrow> game_op list \<Rightarrow> game_state" where
  "game_ops s ops = foldl apply_op s ops"

text \<open>
  The words of the specification: a reset that took place, the operations since the most
  recent one, and the sum of the points awarded to a team by a list of operations.
\<close>

fun is_reset :: "game_op \<Rightarrow> bool" where
  "is_reset (Reset c net) = c"
| "is_reset _ = False"

definition since_reset :: "game_op list \<Rightarrow> game_op list" where
  "since_reset ops = rev (takeWhile (\<lambda>x. \<not> is_reset x) (rev ops))"

definition reset_occurred :: "game_op list \<Rightarrow> bool" where
  "reset_occurred ops = list_ex is_reset ops"

fun awarded_to :: "string \<Rightarrow> game_op \<Rightarrow> int" where
  "awarded_to team (Award t p net) = (if t = team then p else 0)"
| "awarded_to team _ = 0"

definition points_awarded :: "string \<Rightarrow> game_op list \<Rightarrow> int" where
  "points_awarded team ops = sum_list (map (awarded_to team) ops)"

fun nonneg_op :: "game_op \<Rightarrow> bool" where
  "nonneg_op (Award t p net) = (0 \<le> p)"
| "nonneg_op _ = True"

text \<open>
  The range in which the addition of \<^verbatim>\<open>scoreA += points\<close> is exact: a number is safe
  when its magnitude is below \<open>2^53\<close>, and a sequence of operations is exact from a board
  when both scores are safe before and after every operation and every awarded number of
  points is safe. Within it the scores of the model are the scores of the program.
\<close>

definition safe_number :: "int \<Rightarrow> bool" where
  "safe_number n = (\<bar>n\<bar> < 2 ^ 53)"

fun safe_op :: "game_op \<Rightarrow> bool" where
  "safe_op (Award t p net) = safe_number p"
| "safe_op _ = True"

fun exact_ops :: "game_state \<Rightarrow> game_op list \<Rightarrow> bool" where
  "exact_ops s [] = (safe_number (scoreA s) \<and> safe_number (scoreB s))"
| "exact_ops s (x # xs) =
     (safe_number (scoreA s) \<and> safe_number (scoreB s) \<and> safe_op x
      \<and> exact_ops (apply_op s x) xs)"


text \<open>The scoring and reset actions: the events whose handler reaches \<^verbatim>\<open>saveScores\<close>.\<close>

fun scoring_or_reset :: "game_event \<Rightarrow> bool" where
  "scoring_or_reset (ACorrect net) = True"
| "scoring_or_reset (AWrong net) = True"
| "scoring_or_reset (BCorrect net) = True"
| "scoring_or_reset (BWrong net) = True"
| "scoring_or_reset (ResetClick c net) = c"
| "scoring_or_reset _ = False"

text \<open>
  A question is open when \<^verbatim>\<open>currentIndex\<close> is the index of a question. Between two
  events the grid has one card for each question, \<^verbatim>\<open>currentIndex\<close> is \<^verbatim>\<open>null\<close> or the
  index of a question, and the overlay is shown only while a question is open.
\<close>

definition question_open :: "game_state \<Rightarrow> bool" where
  "question_open s = (case currentIndex s of None \<Rightarrow> False | Some i \<Rightarrow> i < length (gs_questions s))"

definition board_ok :: "game_state \<Rightarrow> bool" where
  "board_ok s =
     (length (grid s) = length (gs_questions s)
      \<and> (currentIndex s = None \<or> question_open s)
      \<and> (modalShown s \<longrightarrow> question_open s))"

text \<open>Pages used as examples below.\<close>

definition all_elements :: "string list" where
  "all_elements =
     [''pageTitle'', ''pageContent'', ''pageCount'', ''pageMono'', ''prevBtn'', ''nextBtn'',
      ''scoreA'', ''scoreB'', ''cardsGrid'', ''pdfCanvas'', ''fsBtn'']"

definition trap_page :: window where
  "trap_page =
     \<lparr> SLIDE = None,
       GAME = Some \<lparr> questions = Some [\<lparr> q = ''Q1'', a = ''A1'', points = - 3,
                                          qtype = Some ''trap'' \<rparr>] \<rparr>,
       GAME_ID = ''g1'',
       SCORES = Some \<lparr> saved_scoreA = Some 5, saved_scoreB = Some 0 \<rparr>,
       PDF_URL = None, elements = all_elements \<rparr>"

definition two_question_page :: window where
  "two_question_page =
     \<lparr> SLIDE = None,
       GAME = Some \<lparr> questions = Some [\<lparr> q = ''Q1'', a = ''A1'', points = 10, qtype = None \<rparr>,
                                        \<lparr> q = ''Q2'', a = ''A2'', points = 5, qtype = None \<rparr>] \<rparr>,
       GAME_ID = ''g2'', SCORES = None, PDF_URL = None, elements = all_elements \<rparr>"

definition two_question_board :: game_state where
  "two_question_board =
     \<lparr> gs_questions = [\<lparr> q = ''Q1'', a = ''A1'', points = 10, qtype = None \<rparr>,
                       \<lparr> q = ''Q2'', a = ''A2'', points = 5, qtype = None \<rparr>],
       gameId = ''g2'', scoreA = 0, scoreB = 0, revealed = Map.empty, currentIndex = None,
       scoreAText = 0, scoreBText = 0,
       grid = [\<lparr> card_class = ''cardbtn'', card_text = Some 1, card_disabled = False \<rparr>,
               \<lparr> card_class = ''cardbtn'', card_text = Some 2, card_disabled = False \<rparr>],
       modalShown = False, qBadgeClass = [], qBadgeText = None, qTitle = [], qAnswer = [],
       posts = [], unhandled = [] \<rparr>"

definition first_question_open :: game_state where
  "first_question_open = game_step two_question_board (CardClick 0)"

definition both_answered :: game_state where
  "both_answered =
     game_run two_question_board
       [CardClick 0, ACorrect (Inr ()), CardClick 1, BCorrect (Inl NetworkError)]"

definition three_slides :: "page list" where
  "three_slides = [PageString ''Intro'', PageObject (Some ''Body'') (Some ''Text''), PageNull]"

definition three_slide_page :: window where
  "three_slide_page =
     \<lparr> SLIDE = Some \<lparr> pages = Some three_slides \<rparr>, GAME = None, GAME_ID = [],
       SCORES = None, PDF_URL = None, elements = all_elements \<rparr>"

definition empty_page :: window where
  "empty_page =
     \<lparr> SLIDE = Some \<lparr> pages = Some [] \<rparr>, GAME = Some \<lparr> questions = Some [] \<rparr>,
       GAME_ID = ''g0'', SCORES = None, PDF_URL = None, elements = all_elements \<rparr>"

definition three_page_pdf :: window where
  "three_page_pdf =
     \<lparr> SLIDE = None, GAME = None, GAME_ID = [], SCORES = None,
       PDF_URL = Some ''/files/lesson.pdf'', elements = all_elements \<rparr>"




section \<open>PDF viewer\<close>

text \<open>
  The document handle of the rendering library; the viewer reads only \<^verbatim>\<open>numPages\<close>.
\<close>

record pdf_document =
  numPages :: int

text \<open>
  An activation of \<^verbatim>\<open>renderPage(num)\<close> that has passed the guard is suspended at one
  of its two \<^verbatim>\<open>await\<close>s: on \<^verbatim>\<open>pdfDoc.getPage(num)\<close>, or on the promise of
  \<^verbatim>\<open>page.render\<close>.
\<close>

datatype render_phase = AwaitGetPage int | AwaitRender int

text \<open>
  The variables of the viewer's closure, the elements it has found (\<open>True\<close> for an
  element), the suspended activations of \<^verbatim>\<open>renderPage\<close>, the page drawn on the canvas
  (\<open>None\<close> while it is blank) and what \<^verbatim>\<open>setButtons\<close> has written (\<open>None\<close> for a
  counter never written). The scale computed from the window width is left out.
\<close>

record pdf_viewer =
  prevBtn :: bool
  nextBtn :: bool
  pageCountEl :: bool
  pageMonoEl :: bool
  fsBtn :: bool
  pdfDoc :: "pdf_document option"
  pageNum :: int
  totalPages :: int
  rendering :: bool
  inflight :: "render_phase list"
  canvas :: "int option"
  pv_prevDisabled :: bool
  pv_nextDisabled :: bool
  pv_countText :: "(int \<times> int) option"
  pv_monoText :: "(int \<times> int) option"

definition setButtons :: "pdf_viewer \<Rightarrow> pdf_viewer" where
  "setButtons s =
     (let s1 = (if prevBtn s then s\<lparr> pv_prevDisabled := (pageNum s \<le> 1) \<rparr> else s);
          s2 = (if nextBtn s1 then s1\<lparr> pv_nextDisabled := (pageNum s1 \<ge> totalPages s1) \<rparr>
                else s1);
          s3 = (if pageCountEl s2 then s2\<lparr> pv_countText := Some (pageNum s2, totalPages s2) \<rparr>
                else s2);
          s4 = (if pageMonoEl s3 then s3\<lparr> pv_monoText := Some (pageNum s3, totalPages s3) \<rparr>
                else s3)
      in s4)"

text \<open>
  \<^verbatim>\<open>renderPage(num)\<close> up to its first \<^verbatim>\<open>await\<close>: behind the guard it sets the busy
  flag and suspends on \<^verbatim>\<open>getPage\<close>.
\<close>

definition renderPage :: "int \<Rightarrow> pdf_viewer \<Rightarrow> pdf_viewer" where
  "renderPage num s =
     (if pdfDoc s = None \<or> rendering s then s
      else s\<lparr> rendering := True, inflight := inflight s @ [AwaitGetPage num] \<rparr>)"

definition remove_nth :: "nat \<Rightarrow> 'a list \<Rightarrow> 'a list" where
  "remove_nth i xs = take i xs @ drop (Suc i) xs"

text \<open>
  The promise that the \<open>i\<close>-th suspended activation awaits settles. Fulfilled, the
  activation goes on to its next \<^verbatim>\<open>await\<close> (resizing the canvas, which blanks it) or
  to its end (the page is drawn, the busy flag is cleared, \<^verbatim>\<open>setButtons\<close> runs).
  Rejected, the exception leaves \<^verbatim>\<open>renderPage\<close> at the \<^verbatim>\<open>await\<close>: the activation
  is gone and nothing after the \<^verbatim>\<open>await\<close> has run.
\<close>

definition settle :: "nat \<Rightarrow> bool \<Rightarrow> pdf_viewer \<Rightarrow> pdf_viewer" where
  "settle i ok s =
     (if i < length (inflight s) then
        (if \<not> ok then s\<lparr> inflight := remove_nth i (inflight s) \<rparr>
         else
           (case inflight s ! i of
              AwaitGetPage num \<Rightarrow>
                s\<lparr> canvas := None, inflight := (inflight s)[i := AwaitRender num] \<rparr>
            | AwaitRender num \<Rightarrow>
                setButtons (s\<lparr> canvas := Some num, inflight := remove_nth i (inflight s),
                              rendering := False \<rparr>)))
      else s)"

definition pdf_prevClick :: "pdf_viewer \<Rightarrow> pdf_viewer" where
  "pdf_prevClick s =
     (if pageNum s \<le> 1 then s
      else (let s1 = s\<lparr> pageNum := pageNum s - 1 \<rparr> in renderPage (pageNum s1) s1))"

definition pdf_nextClick :: "pdf_viewer \<Rightarrow> pdf_viewer" where
  "pdf_nextClick s =
     (if pageNum s \<ge> totalPages s then s
      else (let s1 = s\<lparr> pageNum := pageNum s + 1 \<rparr> in renderPage (pageNum s1) s1))"

definition pdf_keydown :: "string \<Rightarrow> pdf_viewer \<Rightarrow> pdf_viewer" where
  "pdf_keydown key s =
     (let s1 = (if key = ''ArrowLeft'' \<and> pageNum s > 1
                then (let t = s\<lparr> pageNum := pageNum s - 1 \<rparr> in renderPage (pageNum t) t)
                else s);
          s2 = (if key = ''ArrowRight'' \<and> pageNum s1 < totalPages s1
                then (let t = s1\<lparr> pageNum := pageNum s1 + 1 \<rparr> in renderPage (pageNum t) t)
                else s1)
      in s2)"

definition pdf_resize :: "pdf_viewer \<Rightarrow> pdf_viewer" where
  "pdf_resize s = renderPage (pageNum s) s"

text \<open>The callback of the timer that the fullscreen button sets.\<close>

definition pdf_fsTimer :: "pdf_viewer \<Rightarrow> pdf_viewer" where
  "pdf_fsTimer s = renderPage (pageNum s) s"

text \<open>
  The events of a viewer whose handlers are registered. A button that was not found has
  no handler; \<open>PdfSettle i ok\<close> settles the promise awaited by the \<open>i\<close>-th activation.
\<close>

datatype pdf_event = PdfPrev | PdfNext | PdfKey string | PdfResize | PdfFsTimer | PdfSettle nat bool

fun pdf_step :: "pdf_viewer \<Rightarrow> pdf_event \<Rightarrow> pdf_viewer" where
  "pdf_step s PdfPrev = (if prevBtn s then pdf_prevClick s else s)"
| "pdf_step s PdfNext = (if nextBtn s then pdf_nextClick s else s)"
| "pdf_step s (PdfKey k) = pdf_keydown k s"
| "pdf_step s PdfResize = pdf_resize s"
| "pdf_step s PdfFsTimer = (if fsBtn s then pdf_fsTimer s else s)"
| "pdf_step s (PdfSettle i ok) = settle i ok s"

definition pdf_run :: "pdf_viewer \<Rightarrow> pdf_event list \<Rightarrow> pdf_viewer" where
  "pdf_run s evs = foldl pdf_step s evs"

text \<open>A navigation request: the two buttons and the two arrow keys.\<close>

fun is_navigation :: "pdf_event \<Rightarrow> bool" where
  "is_navigation PdfPrev = True"
| "is_navigation PdfNext = True"
| "is_navigation (PdfKey k) = (k = ''ArrowLeft'' \<or> k = ''ArrowRight'')"
| "is_navigation _ = False"

text \<open>The variables as the script declares them, before the document is loaded.\<close>

definition pdf_fresh :: "window \<Rightarrow> pdf_viewer" where
  "pdf_fresh w =
     \<lparr> prevBtn = getElementById w ''prevBtn'', nextBtn = getElementById w ''nextBtn'',
       pageCountEl = getElementById w ''pageCount'', pageMonoEl = getElementById w ''pageMono'',
       fsBtn = getElementById w ''fsBtn'',
       pdfDoc = None, pageNum = 1, totalPages = 1, rendering = False, inflight = [],
       canvas = None, pv_prevDisabled = False, pv_nextDisabled = False,
       pv_countText = None, pv_monoText = None \<rparr>"

text \<open>
  The start of the viewer. \<open>doc\<close> is how \<^verbatim>\<open>getDocument(url).promise\<close> settles,
  \<open>page_ok\<close> and \<open>render_ok\<close> whether the two promises of the first \<^verbatim>\<open>renderPage\<close>
  are fulfilled. Without a URL the script returns at once; without the canvas (or its 2d
  context) it logs and returns; a failure inside \<^verbatim>\<open>try\<close> alerts and returns before any
  handler is registered; otherwise the handlers are registered on the state reached.
\<close>

datatype pdf_init = PdfInert | PdfNoCanvas | PdfLoadFailed | PdfReady pdf_viewer

definition initPdfViewer ::
  "window \<Rightarrow> js_error + pdf_document \<Rightarrow> bool \<Rightarrow> bool \<Rightarrow> pdf_init" where
  "initPdfViewer w doc page_ok render_ok =
     (case PDF_URL w of
        None \<Rightarrow> PdfInert
      | Some url \<Rightarrow>
          if url = [] then PdfInert
          else if \<not> getElementById w ''pdfCanvas'' then PdfNoCanvas
          else
            (case doc of
               Inl e \<Rightarrow> PdfLoadFailed
             | Inr d \<Rightarrow>
                 (let s1 = (pdf_fresh w)\<lparr> pdfDoc := Some d \<rparr>;
                      s2 = s1\<lparr> totalPages := numPages d \<rparr>;
                      s3 = setButtons s2;
                      s4 = renderPage (pageNum s3) s3
                  in if \<not> page_ok then PdfLoadFailed
                     else if \<not> render_ok then PdfLoadFailed
                     else PdfReady (settle 0 True (settle 0 True s4)))))"

text \<open>
  What holds of a viewer between two events: the page number is in \<open>[1, totalPages]\<close>,
  a document is loaded, at most one activation of \<^verbatim>\<open>renderPage\<close> is suspended, and one
  is suspended only while the busy flag is set.
\<close>

definition page_in_range :: "pdf_viewer \<Rightarrow> bool" where
  "page_in_range s = (1 \<le> pageNum s \<and> pageNum s \<le> totalPages s)"

definition render_excl :: "pdf_viewer \<Rightarrow> bool" where
  "render_excl s =
     (pdfDoc s \<noteq> None \<and> length (inflight s) \<le> 1 \<and> (inflight s \<noteq> [] \<longrightarrow> rendering s))"


text \<open>
  A render has failed when the busy flag is set although no activation of
  \<^verbatim>\<open>renderPage\<close> is suspended. \<open>shown\<close> is what the viewer displays: the canvas, the
  two buttons and the two counters.
\<close>

definition render_failed :: "pdf_viewer \<Rightarrow> bool" where
  "render_failed s = (rendering s \<and> inflight s = [])"

definition shown ::
  "pdf_viewer \<Rightarrow> int option \<times> bool \<times> bool \<times> (int \<times> int) option \<times> (int \<times> int) option" where
  "shown s = (canvas s, pv_prevDisabled s, pv_nextDisabled s, pv_countText s, pv_monoText s)"


text \<open>The viewer of \<open>three_page_pdf\<close> once its document of three pages is loaded and drawn.\<close>

definition three_page_viewer :: pdf_viewer where
  "three_page_viewer =
     \<lparr> prevBtn = True, nextBtn = True, pageCountEl = True, pageMonoEl = True, fsBtn = True,
       pdfDoc = Some \<lparr> numPages = 3 \<rparr>, pageNum = 1, totalPages = 3, rendering = False,
       inflight = [], canvas = Some 1, pv_prevDisabled = True, pv_nextDisabled = False,
       pv_countText = Some (1, 3), pv_monoText = Some (1, 3) \<rparr>"





section \<open>Slide player: properties\<close>

lemma slide_step_pages: "sp_pages (slide_step p e) = sp_pages p"
  by (cases e) (simp_all add: prevClick_def nextClick_def slide_keydown_def rerender_def Let_def)

lemma slide_step_in_range: "in_range p \<Longrightarrow> in_range (slide_step p e)"
  by (cases e)
     (auto simp: in_range_def prevClick_def nextClick_def slide_keydown_def rerender_def Let_def)

lemma slide_run_in_range: "in_range p \<Longrightarrow> in_range (slide_run p evs)"
  unfolding slide_run_def
  by (induction evs arbitrary: p) (simp_all add: slide_step_in_range)

lemma slide_run_pages: "sp_pages (slide_run p evs) = sp_pages p"
  unfolding slide_run_def
  by (induction evs arbitrary: p) (simp_all add: slide_step_pages)

lemma slide_start_in_range: "ps \<noteq> [] \<Longrightarrow> in_range (slide_start ps)"
  by (cases ps) (simp_all add: in_range_def slide_start_def)

lemma init_slide_start: "initSlidePlayer w = Inr (Some p) \<Longrightarrow> p = slide_start (sp_pages p)"
  by (auto simp: initSlidePlayer_def render_def slide_start_def split: option.splits if_splits)

lemma init_three_slides: "initSlidePlayer three_slide_page = Inr (Some (slide_start three_slides))"
  by (simp add: initSlidePlayer_def render_def slide_start_def three_slide_page_def
      all_elements_def getElementById_def)

lemma init_empty_deck: "initSlidePlayer empty_page = Inr (Some (slide_start []))"
  by (simp add: initSlidePlayer_def render_def slide_start_def empty_page_def
      all_elements_def getElementById_def)

text \<open>
  C2, as stated for every page list, fails on the empty deck, which does start the
  player: there \<open>[0, totalPages-1]\<close> is empty, the index starts at 0 and \<^verbatim>\<open>next()\<close>
  moves it to \<open>-1\<close>.
\<close>

theorem C2_empty_deck_counterexample:
  "initSlidePlayer empty_page = Inr (Some (slide_start []))
   \<and> idx (slide_run (slide_start []) [SlideNext]) = -1
   \<and> \<not> in_range (slide_run (slide_start []) [SlideNext])
   \<and> \<not> in_range (slide_start [])"
  by (simp add: init_empty_deck)
     (simp add: slide_run_def slide_start_def nextClick_def rerender_def in_range_def)

text \<open>
  C2 (amended): for every player that \<^verbatim>\<open>initSlidePlayer\<close> has started on a non-empty page
  list, the index starts at 0 and after every sequence of \<^verbatim>\<open>next()\<close>, \<^verbatim>\<open>prev()\<close> and
  key presses it is in \<open>[0, totalPages-1]\<close>, the page list being unchanged; on the last
  page \<^verbatim>\<open>next()\<close> and the right arrow leave the index where it is and before it they
  advance it by one; at index 0 \<^verbatim>\<open>prev()\<close> and the left arrow leave it at 0 and after it
  they move it back by one.
\<close>

theorem C2_slide_index_in_range:
  assumes "initSlidePlayer w = Inr (Some p0)" and "sp_pages p0 \<noteq> []"
  shows "idx p0 = 0
       \<and> in_range (slide_run p0 evs)
       \<and> sp_pages (slide_run p0 evs) = sp_pages p0
       \<and> (let p = slide_run p0 evs; lastp = int (length (sp_pages p0)) - 1
          in idx (slide_step p SlideNext) = (if idx p = lastp then lastp else idx p + 1)
           \<and> idx (slide_step p (SlideKey ''ArrowRight'')) = idx (slide_step p SlideNext)
           \<and> idx (slide_step p SlidePrev) = (if idx p = 0 then 0 else idx p - 1)
           \<and> idx (slide_step p (SlideKey ''ArrowLeft'')) = idx (slide_step p SlidePrev))"
proof -
  define ps where "ps = sp_pages p0"
  define p where "p = slide_run p0 evs"
  have st: "p0 = slide_start ps"
    unfolding ps_def using assms(1) by (rule init_slide_start)
  then have z: "idx p0 = 0"
    by (simp add: slide_start_def)
  have "in_range p0"
    using st assms(2) slide_start_in_range[of ps] by (simp add: ps_def)
  then have r: "in_range p"
    unfolding p_def by (rule slide_run_in_range)
  have pg: "sp_pages p = ps"
    unfolding p_def ps_def by (simp add: slide_run_pages)
  have nx: "idx (slide_step p SlideNext)
              = (if idx p = int (length ps) - 1 then int (length ps) - 1 else idx p + 1)"
    using r pg by (auto simp: in_range_def nextClick_def rerender_def)
  have pv: "idx (slide_step p SlidePrev) = (if idx p = 0 then 0 else idx p - 1)"
    using r by (auto simp: in_range_def prevClick_def rerender_def)
  have kr: "idx (slide_step p (SlideKey ''ArrowRight'')) = idx (slide_step p SlideNext)"
    by (simp add: slide_keydown_def)
  have kl: "idx (slide_step p (SlideKey ''ArrowLeft'')) = idx (slide_step p SlidePrev)"
    by (simp add: slide_keydown_def)
  from z r pg nx pv kr kl show ?thesis
    unfolding p_def ps_def Let_def by simp
qed

text \<open>
  C2, the scenario of the specification: on a deck of three pages \<^verbatim>\<open>next()\<close> three times
  ends on index 2, and the counter reads 3/3.
\<close>

theorem C2_slide_index_in_range_witness:
  "initSlidePlayer three_slide_page = Inr (Some (slide_start three_slides))
   \<and> sp_pages (slide_start three_slides) \<noteq> []
   \<and> in_range (slide_run (slide_start three_slides) [SlideNext, SlideNext, SlideNext])
   \<and> idx (slide_run (slide_start three_slides) [SlideNext, SlideNext]) = 2
   \<and> idx (slide_run (slide_start three_slides) [SlideNext, SlideNext, SlideNext]) = 2
   \<and> countText (view (slide_run (slide_start three_slides)
                          [SlideNext, SlideNext, SlideNext])) = (3, 3)"
proof -
  have n: "sp_pages (slide_start three_slides) \<noteq> []"
    by (simp add: slide_start_def three_slides_def)
  have e: "idx (slide_run (slide_start three_slides) [SlideNext, SlideNext]) = 2"
    "idx (slide_run (slide_start three_slides) [SlideNext, SlideNext, SlideNext]) = 2"
    "countText (view (slide_run (slide_start three_slides)
                          [SlideNext, SlideNext, SlideNext])) = (3, 3)"
    by (simp_all add: slide_run_def slide_start_def three_slides_def nextClick_def
        rerender_def render_view_def Let_def)
  from C2_slide_index_in_range[OF init_three_slides n, of "[SlideNext, SlideNext, SlideNext]"]
  show ?thesis
    using n e by (simp add: init_three_slides)
qed


section \<open>Game board: properties\<close>

lemma detach_catch: "detach (catch_ignore r) s = s"
  by (cases r) (simp_all add: detach_def catch_ignore_def)

lemma close_fields:
  "scoreA (closeModalMarkRevealed s) = scoreA s"
  "scoreB (closeModalMarkRevealed s) = scoreB s"
  "posts (closeModalMarkRevealed s) = posts s"
  "unhandled (closeModalMarkRevealed s) = unhandled s"
  "gs_questions (closeModalMarkRevealed s) = gs_questions s"
  "modalShown (closeModalMarkRevealed s) = False"
  "currentIndex (closeModalMarkRevealed s) = None"
  by (cases "currentIndex s"; simp add: closeModalMarkRevealed_def renderGrid_def)+

lemma close_revealed:
  "revealed (closeModalMarkRevealed s)
     = (case currentIndex s of None \<Rightarrow> revealed s | Some i \<Rightarrow> (revealed s)(i \<mapsto> True))"
  by (cases "currentIndex s"; simp add: closeModalMarkRevealed_def renderGrid_def)

lemma close_grid:
  "grid (closeModalMarkRevealed s)
     = map (make_card (revealed (closeModalMarkRevealed s))) [0 ..< length (gs_questions s)]"
  by (cases "currentIndex s"; simp add: closeModalMarkRevealed_def renderGrid_def)

lemma award_alt:
  "award team p net s =
     closeModalMarkRevealed (snd (saveScores (Inr ()) (renderScores
       (s\<lparr> scoreA := scoreA s + (if team = ''A'' then p else 0),
           scoreB := scoreB s + (if team = ''B'' then p else 0) \<rparr>))))"
  by (simp add: award_def saveScores_def detach_catch Let_def)

lemma award_scoreA: "scoreA (award team p net s) = scoreA s + (if team = ''A'' then p else 0)"
  by (simp add: award_alt close_fields saveScores_def renderScores_def)

lemma award_scoreB: "scoreB (award team p net s) = scoreB s + (if team = ''B'' then p else 0)"
  by (simp add: award_alt close_fields saveScores_def renderScores_def)

lemma reset_alt:
  "resetClick True net s =
     snd (saveScores (Inr ()) (renderGrid (renderScores
       (s\<lparr> scoreA := 0, scoreB := 0, revealed := Map.empty \<rparr>))))"
  by (simp add: resetClick_def saveScores_def detach_catch Let_def)

lemma reset_scores:
  "scoreA (resetClick c net s) = (if c then 0 else scoreA s)"
  "scoreB (resetClick c net s) = (if c then 0 else scoreB s)"
proof -
  have "\<not> c \<Longrightarrow> resetClick c net s = s"
    by (simp add: resetClick_def)
  moreover have "scoreA (resetClick True net s) = 0" "scoreB (resetClick True net s) = 0"
    by (simp_all add: reset_alt saveScores_def renderGrid_def renderScores_def)
  ultimately show "scoreA (resetClick c net s) = (if c then 0 else scoreA s)"
    and "scoreB (resetClick c net s) = (if c then 0 else scoreB s)"
    by (cases c; simp)+
qed

lemma apply_op_scoreA:
  "scoreA (apply_op s x) = (if is_reset x then 0 else scoreA s + awarded_to ''A'' x)"
  by (cases x) (simp_all add: award_scoreA reset_scores skipClick_def close_fields)

lemma apply_op_scoreB:
  "scoreB (apply_op s x) = (if is_reset x then 0 else scoreB s + awarded_to ''B'' x)"
  by (cases x) (simp_all add: award_scoreB reset_scores skipClick_def close_fields)

lemma since_reset_snoc:
  "since_reset (ops @ [x]) = (if is_reset x then [] else since_reset ops @ [x])"
  by (simp add: since_reset_def)

lemma reset_occurred_snoc:
  "reset_occurred (ops @ [x]) = (reset_occurred ops \<or> is_reset x)"
  by (simp add: reset_occurred_def)

lemma game_ops_snoc: "game_ops s (ops @ [x]) = apply_op (game_ops s ops) x"
  by (simp add: game_ops_def)

lemma game_ops_scoreA:
  "scoreA (game_ops s ops)
     = (if reset_occurred ops then 0 else scoreA s) + points_awarded ''A'' (since_reset ops)"
proof (induction ops rule: rev_induct)
  case Nil
  show ?case by (simp add: game_ops_def reset_occurred_def since_reset_def points_awarded_def)
next
  case (snoc x ops)
  then show ?case
    by (simp add: game_ops_snoc apply_op_scoreA since_reset_snoc reset_occurred_snoc
        points_awarded_def)
qed

lemma game_ops_scoreB:
  "scoreB (game_ops s ops)
     = (if reset_occurred ops then 0 else scoreB s) + points_awarded ''B'' (since_reset ops)"
proof (induction ops rule: rev_induct)
  case Nil
  show ?case by (simp add: game_ops_def reset_occurred_def since_reset_def points_awarded_def)
next
  case (snoc x ops)
  then show ?case
    by (simp add: game_ops_snoc apply_op_scoreB since_reset_snoc reset_occurred_snoc
        points_awarded_def)
qed

lemma awarded_nonneg: "nonneg_op x \<Longrightarrow> 0 \<le> awarded_to team x"
  by (cases x) simp_all

lemma game_ops_nonneg:
  "0 \<le> scoreA s \<Longrightarrow> 0 \<le> scoreB s \<Longrightarrow> list_all nonneg_op ops \<Longrightarrow>
     0 \<le> scoreA (game_ops s ops) \<and> 0 \<le> scoreB (game_ops s ops)"
proof (induction ops rule: rev_induct)
  case Nil
  then show ?case by (simp add: game_ops_def)
next
  case (snoc x ops)
  then show ?case
    using awarded_nonneg[of x "''A''"] awarded_nonneg[of x "''B''"]
    by (simp add: game_ops_snoc apply_op_scoreA apply_op_scoreB)
qed

lemma exact_ops_end:
  "exact_ops s ops \<Longrightarrow>
     safe_number (scoreA (game_ops s ops)) \<and> safe_number (scoreB (game_ops s ops))"
  unfolding game_ops_def by (induction ops arbitrary: s) simp_all

lemma init_scores:
  "initGameBoard w = Inr (Some s) \<Longrightarrow> scoreA s = initial_scoreA w \<and> scoreB s = initial_scoreB w"
  by (auto simp: initGameBoard_def renderGrid_def renderScores_def
      split: option.splits if_splits)

lemma load_app_game: "load_app w = Inr ld \<Longrightarrow> game_widget ld = initGameBoard w"
  by (auto simp: load_app_def split: sum.splits)


text \<open>
  C1 (amended): for every board that the script has started and every sequence of
  \<^verbatim>\<open>award(team, points)\<close>, \<^verbatim>\<open>skip()\<close> and \<^verbatim>\<open>reset()\<close> whose numbers are integers that
  stay in the range where the addition is exact (loaded scores, awarded points and every
  running total below \<open>2^53\<close> in magnitude), each team's score is the sum of the points
  awarded to that team since the most recent confirmed reset, or, when no reset took
  place, the score loaded from \<^verbatim>\<open>window.__SCORES__\<close> (0 when absent) plus the sum of the
  points awarded to that team since the start. Both scores are \<open>\<ge> 0\<close> when the loaded
  scores and all awarded points are.
\<close>

theorem C1_scores:
  assumes "load_app w = Inr ld" and "game_widget ld = Inr (Some s)"
    and "exact_ops s ops"
  shows "scoreA (game_ops s ops)
           = (if reset_occurred ops then 0 else initial_scoreA w)
             + points_awarded ''A'' (since_reset ops)
       \<and> scoreB (game_ops s ops)
           = (if reset_occurred ops then 0 else initial_scoreB w)
             + points_awarded ''B'' (since_reset ops)
       \<and> safe_number (scoreA (game_ops s ops)) \<and> safe_number (scoreB (game_ops s ops))
       \<and> (0 \<le> initial_scoreA w \<and> 0 \<le> initial_scoreB w \<and> list_all nonneg_op ops
            \<longrightarrow> 0 \<le> scoreA (game_ops s ops) \<and> 0 \<le> scoreB (game_ops s ops))"
proof -
  have "initGameBoard w = Inr (Some s)"
    using load_app_game[OF assms(1)] assms(2) by simp
  then have i: "scoreA s = initial_scoreA w \<and> scoreB s = initial_scoreB w"
    by (rule init_scores)
  have e: "safe_number (scoreA (game_ops s ops)) \<and> safe_number (scoreB (game_ops s ops))"
    using assms(3) by (rule exact_ops_end)
  from i e game_ops_nonneg[of s ops] show ?thesis
    by (simp add: game_ops_scoreA game_ops_scoreB)
qed

lemma award_closes:
  "\<not> modalShown (award team p net s) \<and> currentIndex (award team p net s) = None"
  by (simp add: award_alt close_fields)

lemma award_revealed:
  "revealed (award team p net s)
     = (case currentIndex s of None \<Rightarrow> revealed s | Some i \<Rightarrow> (revealed s)(i \<mapsto> True))"
  by (cases "currentIndex s") (simp_all add: award_alt close_revealed saveScores_def renderScores_def)

lemma award_reveals:
  "currentIndex s = Some i \<Longrightarrow> is_revealed (revealed (award team p net s)) i"
  by (simp add: award_revealed is_revealed_def)

lemma award_grid:
  "grid (award team p net s)
     = map (make_card (revealed (award team p net s))) [0 ..< length (gs_questions s)]"
  unfolding award_alt close_grid by (simp add: saveScores_def renderScores_def)

lemma award_disables:
  "currentIndex s = Some i \<Longrightarrow> i < length (gs_questions s) \<Longrightarrow>
     card_disabled (grid (award team p net s) ! i)"
  by (simp add: award_grid award_reveals make_card_def)

lemma award_posts:
  "posts (award team p net s)
     = posts s @ [\<lparr> post_gameId = gameId s,
                     post_scoreA = scoreA (award team p net s),
                     post_scoreB = scoreB (award team p net s) \<rparr>]"
  by (simp add: award_alt close_fields saveScores_def renderScores_def)

lemma award_unhandled: "unhandled (award team p net s) = unhandled s"
  by (simp add: award_alt close_fields saveScores_def renderScores_def)

lemma award_net: "award team p net s = award team p net' s"
  unfolding award_alt by (rule refl)

lemma correct_open:
  "currentIndex s = Some i \<Longrightarrow> i < length (gs_questions s) \<Longrightarrow>
     aCorrectClick net s = Returned (award ''A'' (points (gs_questions s ! i)) net s)
   \<and> bCorrectClick net s = Returned (award ''B'' (points (gs_questions s ! i)) net s)"
  by (simp add: aCorrectClick_def bCorrectClick_def current_points_def)

text \<open>
  C5: \<^verbatim>\<open>award(team, points)\<close> adds the points to the score of team A or B and leaves the
  other score, hides the overlay, clears the current index, marks the question that was
  current revealed (its card is disabled), and sends exactly one request carrying the
  game id and the two updated scores. Whether the request fails or not, the resulting
  state is the same and no rejection is left unhandled. The wrong-answer buttons award 0,
  the correct-answer buttons award the points of the current question.
\<close>

theorem C5_award:
  "scoreA (award team p net s) = scoreA s + (if team = ''A'' then p else 0)
   \<and> scoreB (award team p net s) = scoreB s + (if team = ''B'' then p else 0)
   \<and> \<not> modalShown (award team p net s)
   \<and> currentIndex (award team p net s) = None
   \<and> (\<forall>i. currentIndex s = Some i \<longrightarrow> is_revealed (revealed (award team p net s)) i)
   \<and> (\<forall>i. currentIndex s = Some i \<and> i < length (gs_questions s)
          \<longrightarrow> card_disabled (grid (award team p net s) ! i))
   \<and> posts (award team p net s)
       = posts s @ [\<lparr> post_gameId = gameId s,
                       post_scoreA = scoreA (award team p net s),
                       post_scoreB = scoreB (award team p net s) \<rparr>]
   \<and> unhandled (award team p net s) = unhandled s
   \<and> award team p (Inl NetworkError) s = award team p (Inr ()) s
   \<and> aWrongClick net s = award ''A'' 0 net s
   \<and> bWrongClick net s = award ''B'' 0 net s
   \<and> (\<forall>i. currentIndex s = Some i \<and> i < length (gs_questions s)
          \<longrightarrow> aCorrectClick net s = Returned (award ''A'' (points (gs_questions s ! i)) net s)
            \<and> bCorrectClick net s = Returned (award ''B'' (points (gs_questions s ! i)) net s))"
  using award_closes[of team p net s] award_posts[of team p net s]
    award_net[of team p "Inl NetworkError" s "Inr ()"]
  by (simp add: award_scoreA award_scoreB award_reveals award_disables award_unhandled
      correct_open aWrongClick_def bWrongClick_def)

lemma reset_grid:
  "i < length (gs_questions s) \<Longrightarrow>
     \<not> card_disabled (grid (resetClick True net s) ! i)
     \<and> card_text (grid (resetClick True net s) ! i) = Some (i + 1)"
  by (simp add: reset_alt saveScores_def renderGrid_def renderScores_def is_revealed_def
      make_card_def)

lemma reset_fields:
  "scoreA (resetClick True net s) = 0 \<and> scoreB (resetClick True net s) = 0
   \<and> revealed (resetClick True net s) = Map.empty
   \<and> scoreAText (resetClick True net s) = 0 \<and> scoreBText (resetClick True net s) = 0
   \<and> length (grid (resetClick True net s)) = length (gs_questions s)
   \<and> gs_questions (resetClick True net s) = gs_questions s
   \<and> posts (resetClick True net s)
       = posts s @ [\<lparr> post_gameId = gameId s, post_scoreA = 0, post_scoreB = 0 \<rparr>]
   \<and> unhandled (resetClick True net s) = unhandled s"
  by (simp add: reset_alt saveScores_def renderGrid_def renderScores_def)

text \<open>
  C6: a confirmed \<^verbatim>\<open>reset()\<close> sets both scores and both score labels to 0, empties the
  revealed flags, renders one enabled card per question (a click on it opens the
  question), and sends one request with the scores \<open>(0, 0)\<close>, whose failure is swallowed;
  a declined reset changes nothing.
\<close>

theorem C6_reset:
  "scoreA (resetClick True net s) = 0 \<and> scoreB (resetClick True net s) = 0
   \<and> revealed (resetClick True net s) = Map.empty
   \<and> scoreAText (resetClick True net s) = 0 \<and> scoreBText (resetClick True net s) = 0
   \<and> length (grid (resetClick True net s)) = length (gs_questions s)
   \<and> (\<forall>i < length (gs_questions s).
         \<not> card_disabled (grid (resetClick True net s) ! i)
         \<and> card_text (grid (resetClick True net s) ! i) = Some (i + 1)
         \<and> game_step (resetClick True net s) (CardClick i)
             = state_of (openModalFor i (resetClick True net s)))
   \<and> posts (resetClick True net s)
       = posts s @ [\<lparr> post_gameId = gameId s, post_scoreA = 0, post_scoreB = 0 \<rparr>]
   \<and> unhandled (resetClick True net s) = unhandled s
   \<and> resetClick False net s = s"
  using reset_fields[of net s] reset_grid[of _ s net]
  by (simp add: resetClick_def[of False])

lemma award_posts_len: "length (posts (award team p net s)) = Suc (length (posts s))"
  by (simp add: award_posts)

lemma game_step_posts:
  "posts (game_step s e) = posts s
   \<or> (scoring_or_reset e \<and> length (posts (game_step s e)) = length (posts s) + 1)"
proof (cases e)
  case (CardClick i)
  then show ?thesis by (simp add: openModalFor_def Let_def)
next
  case (ACorrect net)
  then show ?thesis
    by (simp add: aCorrectClick_def award_posts_len split: sum.splits)
next
  case (AWrong net)
  then show ?thesis by (simp add: aWrongClick_def award_posts_len)
next
  case (BCorrect net)
  then show ?thesis
    by (simp add: bCorrectClick_def award_posts_len split: sum.splits)
next
  case (BWrong net)
  then show ?thesis by (simp add: bWrongClick_def award_posts_len)
next
  case SkipClick
  then show ?thesis by (simp add: skipClick_def close_fields)
next
  case (ResetClick c net)
  then show ?thesis using reset_fields[of net s] by (cases c) (simp_all add: resetClick_def[of False])
next
  case BackdropClick
  then show ?thesis by (simp add: backdropClick_def)
qed

text \<open>
  C8: \<^verbatim>\<open>skip()\<close> hides the overlay, clears the current index and marks the question
  that was current revealed; it leaves both scores and the list of requests as they are.
  Of all events only a scoring button and a confirmed reset add a request, and they add
  exactly one.
\<close>

theorem C8_skip:
  "scoreA (skipClick s) = scoreA s \<and> scoreB (skipClick s) = scoreB s
   \<and> posts (skipClick s) = posts s
   \<and> \<not> modalShown (skipClick s) \<and> currentIndex (skipClick s) = None
   \<and> (\<forall>i. currentIndex s = Some i \<longrightarrow> is_revealed (revealed (skipClick s)) i)
   \<and> (\<forall>e. posts (game_step s e) \<noteq> posts s
          \<longrightarrow> scoring_or_reset e \<and> length (posts (game_step s e)) = length (posts s) + 1)"
  using game_step_posts[of s]
  by (auto simp: skipClick_def close_fields close_revealed is_revealed_def)

lemma question_open_iff:
  "question_open s = (\<exists>i. currentIndex s = Some i \<and> i < length (gs_questions s))"
  by (cases "currentIndex s") (simp_all add: question_open_def)

lemma close_ok: "board_ok (closeModalMarkRevealed s)"
  by (simp add: board_ok_def close_fields close_grid)

lemma award_ok: "board_ok (award team p net s)"
  unfolding award_alt by (rule close_ok)

lemma award_questions: "gs_questions (award team p net s) = gs_questions s"
  by (simp add: award_alt close_fields saveScores_def renderScores_def)

lemma reset_ok: "board_ok s \<Longrightarrow> board_ok (resetClick c net s)"
  by (cases c)
     (simp_all add: reset_alt resetClick_def[of False] board_ok_def question_open_iff
        saveScores_def renderGrid_def renderScores_def)

lemma open_ok: "i < length (gs_questions s) \<Longrightarrow> board_ok s \<Longrightarrow> board_ok (state_of (openModalFor i s))"
  by (simp add: openModalFor_def board_ok_def question_open_iff Let_def)

lemma game_step_ok: "board_ok s \<Longrightarrow> board_ok (game_step s e)"
proof (cases e)
  case (CardClick i)
  assume ok: "board_ok s"
  then have "length (grid s) = length (gs_questions s)" by (simp add: board_ok_def)
  with ok CardClick show ?thesis by (simp add: open_ok)
next
  case (ACorrect net)
  assume "board_ok s"
  with ACorrect show ?thesis
    by (simp add: aCorrectClick_def award_ok split: sum.splits)
next
  case (AWrong net)
  then show ?thesis by (simp add: aWrongClick_def award_ok)
next
  case (BCorrect net)
  assume "board_ok s"
  with BCorrect show ?thesis
    by (simp add: bCorrectClick_def award_ok split: sum.splits)
next
  case (BWrong net)
  then show ?thesis by (simp add: bWrongClick_def award_ok)
next
  case SkipClick
  then show ?thesis by (simp add: skipClick_def close_ok)
next
  case (ResetClick c net)
  assume "board_ok s"
  with ResetClick show ?thesis by (simp add: reset_ok)
next
  case BackdropClick
  assume "board_ok s"
  with BackdropClick show ?thesis by (simp add: backdropClick_def board_ok_def question_open_iff)
qed

lemma game_run_ok: "board_ok s \<Longrightarrow> board_ok (game_run s evs)"
  unfolding game_run_def by (induction evs arbitrary: s) (simp_all add: game_step_ok)

lemma init_ok: "initGameBoard w = Inr (Some s) \<Longrightarrow> board_ok s"
  by (auto simp: initGameBoard_def renderGrid_def renderScores_def board_ok_def
      split: option.splits if_splits)

lemma points_fail: "(current_points s = Inl TypeError) = (\<not> question_open s)"
  by (cases "currentIndex s") (simp_all add: current_points_def question_open_iff)

lemma correct_closed:
  "\<not> question_open s \<Longrightarrow>
     aCorrectClick net s = Thrown TypeError s \<and> bCorrectClick net s = Thrown TypeError s"
  using points_fail[of s] by (simp add: aCorrectClick_def bCorrectClick_def)

text \<open>
  C9: the two correct-answer handlers read \<^verbatim>\<open>game.questions[currentIndex].points\<close>. The
  read throws exactly when no question is open; then the handler throws and leaves the
  state as it is, and with \<^verbatim>\<open>currentIndex\<close> \<^verbatim>\<open>null\<close> no question is open. With a question
  open the handler awards the points of that question. On every board reachable from
  \<^verbatim>\<open>initGameBoard\<close> a question is open exactly when \<^verbatim>\<open>currentIndex\<close> is not \<^verbatim>\<open>null\<close>,
  and it is open whenever the overlay is shown.
\<close>

theorem C9_correct_needs_open_question:
  assumes "initGameBoard w = Inr (Some s0)"
  shows "(question_open (game_run s0 evs) \<longleftrightarrow> currentIndex (game_run s0 evs) \<noteq> None)
       \<and> (modalShown (game_run s0 evs) \<longrightarrow> question_open (game_run s0 evs))
       \<and> (current_points s = Inl TypeError \<longleftrightarrow> \<not> question_open s)
       \<and> (currentIndex s = None \<longrightarrow> \<not> question_open s)
       \<and> (\<not> question_open s
            \<longrightarrow> aCorrectClick net s = Thrown TypeError s
              \<and> bCorrectClick net s = Thrown TypeError s)
       \<and> (\<forall>i. question_open s \<and> currentIndex s = Some i
            \<longrightarrow> aCorrectClick net s = Returned (award ''A'' (points (gs_questions s ! i)) net s)
              \<and> bCorrectClick net s = Returned (award ''B'' (points (gs_questions s ! i)) net s))"
proof -
  have ok: "board_ok (game_run s0 evs)"
    using assms by (simp add: init_ok game_run_ok)
  then have a: "question_open (game_run s0 evs) \<longleftrightarrow> currentIndex (game_run s0 evs) \<noteq> None"
    by (auto simp: board_ok_def question_open_iff)
  from ok have b: "modalShown (game_run s0 evs) \<longrightarrow> question_open (game_run s0 evs)"
    by (simp add: board_ok_def)
  have c: "currentIndex s = None \<longrightarrow> \<not> question_open s"
    by (simp add: question_open_iff)
  have d: "\<forall>i. question_open s \<and> currentIndex s = Some i
            \<longrightarrow> aCorrectClick net s = Returned (award ''A'' (points (gs_questions s ! i)) net s)
              \<and> bCorrectClick net s = Returned (award ''B'' (points (gs_questions s ! i)) net s)"
    by (auto simp: question_open_iff correct_open)
  from a b c d show ?thesis
    using points_fail[of s] correct_closed[of s net] by blast
qed

lemma init_two: "initGameBoard two_question_page = Inr (Some two_question_board)"
  by (simp add: initGameBoard_def two_question_page_def two_question_board_def all_elements_def
      getElementById_def initial_scoreA_def initial_scoreB_def or_zero_def renderGrid_def
      renderScores_def make_card_def is_revealed_def)

lemma first_open_fields:
  "currentIndex first_question_open = Some 0"
  "gs_questions first_question_open = gs_questions two_question_board"
  "scoreA first_question_open = 0" "scoreB first_question_open = 0"
  "posts first_question_open = []" "unhandled first_question_open = []"
  "gameId first_question_open = ''g2''"
  "modalShown first_question_open"
  by (simp_all add: first_question_open_def two_question_board_def openModalFor_def
      type_of_item_def Let_def)

lemmas board_eval = game_run_def two_question_board_def openModalFor_def aCorrectClick_def
  bCorrectClick_def current_points_def award_def detach_def catch_ignore_def
  closeModalMarkRevealed_def renderGrid_def saveScores_def renderScores_def make_card_def
  is_revealed_def type_of_item_def Let_def

lemma both_answered_fields:
  "scoreA both_answered = 10" "scoreB both_answered = 5"
  "length (gs_questions both_answered) = 2"
  "card_disabled (grid both_answered ! 0)" "card_disabled (grid both_answered ! 1)"
  "is_revealed (revealed both_answered) 0" "is_revealed (revealed both_answered) 1"
  "posts both_answered = [\<lparr> post_gameId = ''g2'', post_scoreA = 10, post_scoreB = 0 \<rparr>,
                          \<lparr> post_gameId = ''g2'', post_scoreA = 10, post_scoreB = 5 \<rparr>]"
  "unhandled both_answered = []"
  by (simp_all add: both_answered_def board_eval)

lemma initial_two:
  "initial_scoreA two_question_page = 0" "initial_scoreB two_question_page = 0"
  by (simp_all add: initial_scoreA_def initial_scoreB_def two_question_page_def or_zero_def)

lemma load_two:
  "load_app two_question_page
     = Inr \<lparr> slide_widget = None, game_widget = Inr (Some two_question_board) \<rparr>"
proof -
  have "initSlidePlayer two_question_page = Inr None"
    by (simp add: initSlidePlayer_def two_question_page_def)
  then show ?thesis
    by (simp add: load_app_def init_two)
qed

lemma exact_two:
  "exact_ops two_question_board
     [Award ''A'' 10 (Inr ()), Skip, Reset True (Inl NetworkError),
      Award ''A'' 3 (Inr ()), Reset False (Inr ()), Award ''B'' 5 (Inr ())]"
proof -
  have "scoreA two_question_board = 0" "scoreB two_question_board = 0"
    by (simp_all add: two_question_board_def)
  then show ?thesis
    by (simp add: award_scoreA award_scoreB reset_scores skipClick_def close_fields
        safe_number_def)
qed

text \<open>
  C1 on a board of two questions: ten points to A, a skip, a confirmed reset, three points
  to A, a declined reset, five points to B.
\<close>

theorem C1_scores_witness:
  "load_app two_question_page
     = Inr \<lparr> slide_widget = None, game_widget = Inr (Some two_question_board) \<rparr>
   \<and> exact_ops two_question_board
        [Award ''A'' 10 (Inr ()), Skip, Reset True (Inl NetworkError),
         Award ''A'' 3 (Inr ()), Reset False (Inr ()), Award ''B'' 5 (Inr ())]
   \<and> 0 \<le> initial_scoreA two_question_page \<and> 0 \<le> initial_scoreB two_question_page
   \<and> list_all nonneg_op [Award ''A'' 10 (Inr ()), Skip, Reset True (Inl NetworkError),
                          Award ''A'' 3 (Inr ()), Reset False (Inr ()), Award ''B'' 5 (Inr ())]
   \<and> reset_occurred [Award ''A'' 10 (Inr ()), Skip, Reset True (Inl NetworkError),
                      Award ''A'' 3 (Inr ()), Reset False (Inr ()), Award ''B'' 5 (Inr ())]
   \<and> scoreA (game_ops two_question_board
         [Award ''A'' 10 (Inr ()), Skip, Reset True (Inl NetworkError),
          Award ''A'' 3 (Inr ()), Reset False (Inr ()), Award ''B'' 5 (Inr ())]) = 3
   \<and> scoreB (game_ops two_question_board
         [Award ''A'' 10 (Inr ()), Skip, Reset True (Inl NetworkError),
          Award ''A'' 3 (Inr ()), Reset False (Inr ()), Award ''B'' 5 (Inr ())]) = 5"
proof -
  have g: "game_widget \<lparr> slide_widget = None, game_widget = Inr (Some two_question_board) \<rparr>
             = Inr (Some two_question_board)"
    by simp
  from C1_scores[OF load_two g exact_two] show ?thesis
    using exact_two
    by (simp add: load_two initial_two reset_occurred_def since_reset_def points_awarded_def
        del: exact_ops.simps)
qed

text \<open>
  C1 as stated fails, inside the exact range, on a page whose embedded scores are
  \<open>(5, 0)\<close> and whose one question is worth \<open>-3\<close>: after \<^verbatim>\<open>award("B", -3)\<close> (team B
  answers the question) team A has 5 although nothing was awarded to it, and team B has
  \<open>-3\<close>.
\<close>

theorem C1_initial_and_negative_counterexample:
  "(case load_app trap_page of
      Inr ld \<Rightarrow>
        (case game_widget ld of
           Inr (Some s) \<Rightarrow>
               exact_ops s [Award ''B'' (- 3) (Inr ())]
             \<and> scoreA (game_ops s [Award ''B'' (- 3) (Inr ())]) = 5
             \<and> points_awarded ''A'' (since_reset [Award ''B'' (- 3) (Inr ())]) = 0
             \<and> scoreB (game_ops s [Award ''B'' (- 3) (Inr ())]) = - 3
             \<and> scoreA (game_run s [CardClick 0, BCorrect (Inr ())]) = 5
             \<and> scoreB (game_run s [CardClick 0, BCorrect (Inr ())]) = - 3
         | _ \<Rightarrow> False)
    | Inl e \<Rightarrow> False)"
  by (simp add: load_app_def initSlidePlayer_def initGameBoard_def trap_page_def
      all_elements_def getElementById_def
      initial_scoreA_def initial_scoreB_def or_zero_def game_ops_def game_run_def
      award_def detach_def catch_ignore_def closeModalMarkRevealed_def renderGrid_def
      saveScores_def renderScores_def Let_def points_awarded_def since_reset_def
      openModalFor_def bCorrectClick_def current_points_def type_of_item_def
      make_card_def is_revealed_def safe_number_def)

text \<open>
  C5 on the first question (10 points) of the board of two questions, answered correctly
  by team A while the network is down.
\<close>

theorem C5_award_witness:
  "currentIndex first_question_open = Some 0
   \<and> 0 < length (gs_questions first_question_open)
   \<and> aCorrectClick (Inl NetworkError) first_question_open
       = Returned (award ''A'' 10 (Inl NetworkError) first_question_open)
   \<and> scoreA (award ''A'' 10 (Inl NetworkError) first_question_open) = 10
   \<and> scoreB (award ''A'' 10 (Inl NetworkError) first_question_open) = 0
   \<and> is_revealed (revealed (award ''A'' 10 (Inl NetworkError) first_question_open)) 0
   \<and> card_disabled (grid (award ''A'' 10 (Inl NetworkError) first_question_open) ! 0)
   \<and> posts (award ''A'' 10 (Inl NetworkError) first_question_open)
       = [\<lparr> post_gameId = ''g2'', post_scoreA = 10, post_scoreB = 0 \<rparr>]
   \<and> unhandled (award ''A'' 10 (Inl NetworkError) first_question_open) = []"
  using C5_award[of "''A''" 10 "Inl NetworkError" first_question_open]
  by (simp add: first_open_fields two_question_board_def
      award_net[of "''A''" 10 "Inl NetworkError" first_question_open "Inr ()"])

text \<open>
  C6, the scenario of the specification: scores 10 and 5, both questions revealed; after
  the reset both scores are 0 and both cards are enabled.
\<close>

theorem C6_reset_witness:
  "scoreA both_answered = 10 \<and> scoreB both_answered = 5
   \<and> length (gs_questions both_answered) = 2
   \<and> card_disabled (grid both_answered ! 0) \<and> card_disabled (grid both_answered ! 1)
   \<and> scoreA (resetClick True (Inr ()) both_answered) = 0
   \<and> scoreB (resetClick True (Inr ()) both_answered) = 0
   \<and> \<not> card_disabled (grid (resetClick True (Inr ()) both_answered) ! 0)
   \<and> \<not> card_disabled (grid (resetClick True (Inr ()) both_answered) ! 1)
   \<and> posts (resetClick True (Inr ()) both_answered)
       = posts both_answered @ [\<lparr> post_gameId = ''g2'', post_scoreA = 0, post_scoreB = 0 \<rparr>]"
proof -
  note r = C6_reset[of "Inr ()" both_answered]
  have g: "gameId both_answered = ''g2''"
    by (simp add: both_answered_def board_eval)
  from r have "\<forall>i<2. \<not> card_disabled (grid (resetClick True (Inr ()) both_answered) ! i)"
    by (simp add: both_answered_fields)
  then have "\<not> card_disabled (grid (resetClick True (Inr ()) both_answered) ! 0)"
    and "\<not> card_disabled (grid (resetClick True (Inr ()) both_answered) ! 1)"
    by simp_all
  with r g show ?thesis
    using both_answered_fields by simp
qed

text \<open>C8 on the first question of the board of two questions.\<close>

theorem C8_skip_witness:
  "currentIndex first_question_open = Some 0
   \<and> is_revealed (revealed (skipClick first_question_open)) 0
   \<and> scoreA (skipClick first_question_open) = 0
   \<and> scoreB (skipClick first_question_open) = 0
   \<and> posts (skipClick first_question_open) = []
   \<and> posts (game_step first_question_open (AWrong (Inr ()))) \<noteq> posts first_question_open
   \<and> scoring_or_reset (AWrong (Inr ()))"
  using C8_skip[of first_question_open]
  by (simp add: first_open_fields aWrongClick_def award_posts)

text \<open>
  C9 on the board of two questions: before any card is clicked the handler throws, after
  a click on the first card it awards its 10 points.
\<close>

theorem C9_correct_needs_open_question_witness:
  "initGameBoard two_question_page = Inr (Some two_question_board)
   \<and> currentIndex (game_run two_question_board []) = None
   \<and> \<not> question_open (game_run two_question_board [])
   \<and> aCorrectClick (Inr ()) two_question_board = Thrown TypeError two_question_board
   \<and> question_open (game_run two_question_board [CardClick 0])
   \<and> modalShown (game_run two_question_board [CardClick 0])
   \<and> aCorrectClick (Inr ()) (game_run two_question_board [CardClick 0])
       = Returned (award ''A'' 10 (Inr ()) (game_run two_question_board [CardClick 0]))"
proof -
  have o: "game_run two_question_board [CardClick 0] = first_question_open"
    by (simp add: game_run_def first_question_open_def)
  have e: "game_run two_question_board [] = two_question_board"
    by (simp add: game_run_def)
  have c: "currentIndex two_question_board = None"
    by (simp add: two_question_board_def)
  have p: "points (gs_questions two_question_board ! 0) = 10"
    by (simp add: two_question_board_def)
  from C9_correct_needs_open_question[OF init_two, of "[]" two_question_board "Inr ()"]
    C9_correct_needs_open_question[OF init_two, of "[CardClick 0]" first_question_open "Inr ()"]
  show ?thesis
    using c p by (simp add: o e init_two first_open_fields)
qed


section \<open>PDF viewer: properties\<close>

lemma setButtons_fields:
  "pageNum (setButtons s) = pageNum s" "totalPages (setButtons s) = totalPages s"
  "pdfDoc (setButtons s) = pdfDoc s" "rendering (setButtons s) = rendering s"
  "inflight (setButtons s) = inflight s" "canvas (setButtons s) = canvas s"
  "prevBtn (setButtons s) = prevBtn s" "nextBtn (setButtons s) = nextBtn s"
  "fsBtn (setButtons s) = fsBtn s"
  by (simp_all add: setButtons_def Let_def)

lemma renderPage_fields:
  "pageNum (renderPage n s) = pageNum s" "totalPages (renderPage n s) = totalPages s"
  "pdfDoc (renderPage n s) = pdfDoc s" "canvas (renderPage n s) = canvas s"
  "prevBtn (renderPage n s) = prevBtn s" "nextBtn (renderPage n s) = nextBtn s"
  "fsBtn (renderPage n s) = fsBtn s" "shown (renderPage n s) = shown s"
  by (simp_all add: renderPage_def shown_def)

lemma renderPage_noop: "pdfDoc s = None \<or> rendering s \<Longrightarrow> renderPage n s = s"
  by (auto simp: renderPage_def)

lemma renderPage_excl: "render_excl s \<Longrightarrow> render_excl (renderPage n s)"
  by (auto simp: renderPage_def render_excl_def)

lemma settle_fields:
  "pageNum (settle i ok s) = pageNum s" "totalPages (settle i ok s) = totalPages s"
  "pdfDoc (settle i ok s) = pdfDoc s"
  "prevBtn (settle i ok s) = prevBtn s" "nextBtn (settle i ok s) = nextBtn s"
  "fsBtn (settle i ok s) = fsBtn s"
  by (simp_all add: settle_def setButtons_fields split: render_phase.splits)

lemma settle_excl: "render_excl s \<Longrightarrow> render_excl (settle i ok s)"
  by (cases "inflight s")
     (auto simp: settle_def render_excl_def setButtons_fields remove_nth_def
        split: render_phase.splits)

lemma pdf_step_pages:
  "totalPages (pdf_step s e) = totalPages s \<and> pdfDoc (pdf_step s e) = pdfDoc s
   \<and> prevBtn (pdf_step s e) = prevBtn s \<and> nextBtn (pdf_step s e) = nextBtn s
   \<and> fsBtn (pdf_step s e) = fsBtn s"
  by (cases e)
     (simp_all add: pdf_prevClick_def pdf_nextClick_def pdf_keydown_def pdf_resize_def
        pdf_fsTimer_def renderPage_fields settle_fields Let_def)

lemma pdf_step_in_range: "page_in_range s \<Longrightarrow> page_in_range (pdf_step s e)"
  by (cases e)
     (auto simp: page_in_range_def pdf_prevClick_def pdf_nextClick_def pdf_keydown_def
        pdf_resize_def pdf_fsTimer_def renderPage_fields settle_fields Let_def)

lemma pdf_step_excl: "render_excl s \<Longrightarrow> render_excl (pdf_step s e)"
proof (cases e)
  case (PdfKey k)
  assume "render_excl s"
  then have "\<And>n p. render_excl (renderPage n (s\<lparr> pageNum := p \<rparr>))"
    by (auto simp: renderPage_def render_excl_def)
  with \<open>render_excl s\<close> PdfKey show ?thesis
    by (simp add: pdf_keydown_def Let_def renderPage_fields)
next
  case PdfPrev
  assume "render_excl s"
  then have "\<And>n p. render_excl (renderPage n (s\<lparr> pageNum := p \<rparr>))"
    by (auto simp: renderPage_def render_excl_def)
  with \<open>render_excl s\<close> PdfPrev show ?thesis
    by (simp add: pdf_prevClick_def Let_def)
next
  case PdfNext
  assume "render_excl s"
  then have "\<And>n p. render_excl (renderPage n (s\<lparr> pageNum := p \<rparr>))"
    by (auto simp: renderPage_def render_excl_def)
  with \<open>render_excl s\<close> PdfNext show ?thesis
    by (simp add: pdf_nextClick_def Let_def)
next
  case PdfResize
  assume "render_excl s"
  with PdfResize show ?thesis by (simp add: pdf_resize_def renderPage_excl)
next
  case PdfFsTimer
  assume "render_excl s"
  with PdfFsTimer show ?thesis by (simp add: pdf_fsTimer_def renderPage_excl)
next
  case (PdfSettle i ok)
  assume "render_excl s"
  with PdfSettle show ?thesis by (simp add: settle_excl)
qed

lemma pdf_run_in_range: "page_in_range s \<Longrightarrow> page_in_range (pdf_run s evs)"
  unfolding pdf_run_def by (induction evs arbitrary: s) (simp_all add: pdf_step_in_range)

lemma pdf_run_excl: "render_excl s \<Longrightarrow> render_excl (pdf_run s evs)"
  unfolding pdf_run_def by (induction evs arbitrary: s) (simp_all add: pdf_step_excl)

lemma pdf_run_pages: "totalPages (pdf_run s evs) = totalPages s \<and> pdfDoc (pdf_run s evs) = pdfDoc s"
  unfolding pdf_run_def by (induction evs arbitrary: s) (simp_all add: pdf_step_pages)

lemma ready_state:
  assumes "initPdfViewer w (Inr d) page_ok render_ok = PdfReady s0"
  shows "pageNum s0 = 1" "totalPages s0 = numPages d" "pdfDoc s0 = Some d"
    "\<not> rendering s0" "inflight s0 = []" "canvas s0 = Some 1"
  using assms
  by (auto simp: initPdfViewer_def pdf_fresh_def renderPage_def settle_def setButtons_fields
      remove_nth_def Let_def split: option.splits if_splits)

lemma failed_step: "render_failed s \<Longrightarrow> render_failed (pdf_step s e) \<and> shown (pdf_step s e) = shown s"
  by (cases e)
     (auto simp: render_failed_def pdf_prevClick_def pdf_nextClick_def pdf_keydown_def
        pdf_resize_def pdf_fsTimer_def renderPage_def settle_def shown_def Let_def)

lemma failed_run: "render_failed s \<Longrightarrow> render_failed (pdf_run s evs) \<and> shown (pdf_run s evs) = shown s"
  unfolding pdf_run_def
proof (induction evs arbitrary: s)
  case Nil
  then show ?case by simp
next
  case (Cons e evs)
  from Cons.prems have "render_failed (pdf_step s e)" and "shown (pdf_step s e) = shown s"
    by (simp_all add: failed_step)
  with Cons.IH[of "pdf_step s e"] show ?case by simp
qed

lemma reject_fails:
  "render_excl s \<Longrightarrow> i < length (inflight s) \<Longrightarrow> render_failed (settle i False s)"
  by (cases "inflight s") (auto simp: render_excl_def render_failed_def settle_def remove_nth_def)

text \<open>
  Renders never overlap: on every viewer reachable from the start at most one activation
  of \<^verbatim>\<open>renderPage\<close> is suspended, and only while the busy flag is set.
\<close>

lemma renders_never_overlap:
  assumes "initPdfViewer w (Inr d) page_ok render_ok = PdfReady s0"
  shows "length (inflight (pdf_run s0 evs)) \<le> 1
       \<and> (inflight (pdf_run s0 evs) \<noteq> [] \<longrightarrow> rendering (pdf_run s0 evs))"
proof -
  have "render_excl s0"
    using ready_state[OF assms] by (simp add: render_excl_def)
  then have "render_excl (pdf_run s0 evs)"
    by (rule pdf_run_excl)
  then show ?thesis
    by (simp add: render_excl_def)
qed

text \<open>
  C7: for every viewer whose document is loaded and whose first page is drawn (the
  document then has at least one page), after every sequence of events the page number is
  in \<open>[1, totalPages]\<close> and \<open>totalPages\<close> is the document's page count. On page 1 the
  previous button and the left arrow change nothing; on the last page the next button and
  the right arrow change nothing; elsewhere the arrows move the page number by one.
\<close>

theorem C7_pdf_page_in_range:
  assumes "initPdfViewer w (Inr d) page_ok render_ok = PdfReady s0"
    and "1 \<le> numPages d"
  shows "page_in_range (pdf_run s0 evs)
       \<and> totalPages (pdf_run s0 evs) = numPages d
       \<and> (pageNum (pdf_run s0 evs) = 1
            \<longrightarrow> pdf_step (pdf_run s0 evs) PdfPrev = pdf_run s0 evs
              \<and> pdf_step (pdf_run s0 evs) (PdfKey ''ArrowLeft'') = pdf_run s0 evs)
       \<and> (pageNum (pdf_run s0 evs) = totalPages (pdf_run s0 evs)
            \<longrightarrow> pdf_step (pdf_run s0 evs) PdfNext = pdf_run s0 evs
              \<and> pdf_step (pdf_run s0 evs) (PdfKey ''ArrowRight'') = pdf_run s0 evs)
       \<and> (1 < pageNum (pdf_run s0 evs)
            \<longrightarrow> pageNum (pdf_step (pdf_run s0 evs) (PdfKey ''ArrowLeft''))
                  = pageNum (pdf_run s0 evs) - 1)
       \<and> (pageNum (pdf_run s0 evs) < totalPages (pdf_run s0 evs)
            \<longrightarrow> pageNum (pdf_step (pdf_run s0 evs) (PdfKey ''ArrowRight''))
                  = pageNum (pdf_run s0 evs) + 1)"
proof -
  define s where "s = pdf_run s0 evs"
  have "page_in_range s0"
    using ready_state(1,2)[OF assms(1)] assms(2) by (simp add: page_in_range_def)
  then have r: "page_in_range s"
    unfolding s_def by (rule pdf_run_in_range)
  have t: "totalPages s = numPages d"
    unfolding s_def using ready_state(2)[OF assms(1)] by (simp add: pdf_run_pages)
  have lo: "pageNum s = 1 \<longrightarrow> pdf_step s PdfPrev = s \<and> pdf_step s (PdfKey ''ArrowLeft'') = s"
    by (simp add: pdf_prevClick_def pdf_keydown_def)
  have hi: "pageNum s = totalPages s
              \<longrightarrow> pdf_step s PdfNext = s \<and> pdf_step s (PdfKey ''ArrowRight'') = s"
    by (simp add: pdf_nextClick_def pdf_keydown_def)
  have dn: "1 < pageNum s \<longrightarrow> pageNum (pdf_step s (PdfKey ''ArrowLeft'')) = pageNum s - 1"
    by (simp add: pdf_keydown_def renderPage_fields)
  have up: "pageNum s < totalPages s
              \<longrightarrow> pageNum (pdf_step s (PdfKey ''ArrowRight'')) = pageNum s + 1"
    by (simp add: pdf_keydown_def renderPage_fields)
  from r t lo hi dn up show ?thesis
    unfolding s_def by blast
qed

text \<open>
  C10: when a promise awaited inside \<^verbatim>\<open>renderPage\<close> (the page fetch or the render)
  rejects, the busy flag stays set: after every later sequence of events it is still set,
  no render is in flight, the canvas, the buttons and the counters are as they were before
  the rejection, and every call \<^verbatim>\<open>renderPage(n)\<close> returns the state unchanged.
\<close>

theorem C10_failed_render_blocks_rendering:
  assumes "initPdfViewer w (Inr d) page_ok render_ok = PdfReady s0"
    and "i < length (inflight (pdf_run s0 evs0))"
  shows "rendering (pdf_run (settle i False (pdf_run s0 evs0)) evs)
       \<and> inflight (pdf_run (settle i False (pdf_run s0 evs0)) evs) = []
       \<and> shown (pdf_run (settle i False (pdf_run s0 evs0)) evs)
           = shown (pdf_run s0 evs0)
       \<and> renderPage n (pdf_run (settle i False (pdf_run s0 evs0)) evs)
           = pdf_run (settle i False (pdf_run s0 evs0)) evs"
proof -
  define s where "s = pdf_run s0 evs0"
  define s' where "s' = settle i False s"
  have "render_excl s0"
    using ready_state[OF assms(1)] by (simp add: render_excl_def)
  then have "render_excl s"
    unfolding s_def by (rule pdf_run_excl)
  with assms(2) have f: "render_failed s'"
    unfolding s'_def s_def by (simp add: reject_fails)
  have sh: "shown s' = shown s"
    using assms(2) unfolding s'_def s_def by (simp add: settle_def shown_def)
  from f have g: "render_failed (pdf_run s' evs)" and h: "shown (pdf_run s' evs) = shown s'"
    by (simp_all add: failed_run)
  from g have "renderPage n (pdf_run s' evs) = pdf_run s' evs"
    by (simp add: render_failed_def renderPage_noop)
  with g h sh show ?thesis
    unfolding s'_def s_def by (simp add: render_failed_def)
qed

lemmas pdf_eval = pdf_run_def three_page_viewer_def pdf_nextClick_def pdf_prevClick_def
  pdf_keydown_def pdf_resize_def pdf_fsTimer_def renderPage_def settle_def setButtons_def
  remove_nth_def Let_def

lemma init_three:
  "initPdfViewer three_page_pdf (Inr \<lparr> numPages = 3 \<rparr>) True True = PdfReady three_page_viewer"
  by (simp add: initPdfViewer_def three_page_pdf_def all_elements_def getElementById_def
      pdf_fresh_def pdf_eval)

text \<open>
  C3 at two quick clicks on next in a document of three pages. The first click starts the
  render of page 2; the second arrives while it is in flight (the button is still
  enabled), starts no render, and yet moves the page number to 3. When the render ends the
  canvas shows page 2 and the counter says 3/3.
\<close>

theorem C3_navigation_during_render_changes_page:
  "initPdfViewer three_page_pdf (Inr \<lparr> numPages = 3 \<rparr>) True True = PdfReady three_page_viewer
   \<and> rendering (pdf_run three_page_viewer [PdfNext])
   \<and> inflight (pdf_run three_page_viewer [PdfNext]) = [AwaitGetPage 2]
   \<and> \<not> pv_nextDisabled (pdf_run three_page_viewer [PdfNext])
   \<and> pageNum (pdf_run three_page_viewer [PdfNext]) = 2
   \<and> pageNum (pdf_run three_page_viewer [PdfNext, PdfNext]) = 3
   \<and> pdf_run three_page_viewer [PdfNext, PdfNext] \<noteq> pdf_run three_page_viewer [PdfNext]
   \<and> inflight (pdf_run three_page_viewer [PdfNext, PdfNext]) = [AwaitGetPage 2]
   \<and> canvas (pdf_run three_page_viewer
               [PdfNext, PdfNext, PdfSettle 0 True, PdfSettle 0 True]) = Some 2
   \<and> pageNum (pdf_run three_page_viewer
               [PdfNext, PdfNext, PdfSettle 0 True, PdfSettle 0 True]) = 3
   \<and> pv_countText (pdf_run three_page_viewer
               [PdfNext, PdfNext, PdfSettle 0 True, PdfSettle 0 True]) = Some (3, 3)
   \<and> \<not> rendering (pdf_run three_page_viewer
               [PdfNext, PdfNext, PdfSettle 0 True, PdfSettle 0 True])"
proof -
  have a: "pdf_run three_page_viewer [PdfNext]
             = three_page_viewer\<lparr> pageNum := 2, rendering := True, inflight := [AwaitGetPage 2] \<rparr>"
    by (simp add: pdf_eval)
  have b: "pdf_run three_page_viewer [PdfNext, PdfNext]
             = three_page_viewer\<lparr> pageNum := 3, rendering := True, inflight := [AwaitGetPage 2] \<rparr>"
    by (simp add: pdf_eval)
  have c: "pdf_run three_page_viewer [PdfNext, PdfNext, PdfSettle 0 True, PdfSettle 0 True]
             = three_page_viewer\<lparr> pageNum := 3, canvas := Some 2, pv_prevDisabled := False,
                 pv_nextDisabled := True, pv_countText := Some (3, 3),
                 pv_monoText := Some (3, 3) \<rparr>"
    by (simp add: pdf_eval)
  have d: "pdf_run three_page_viewer [PdfNext, PdfNext] \<noteq> pdf_run three_page_viewer [PdfNext]"
  proof
    assume "pdf_run three_page_viewer [PdfNext, PdfNext] = pdf_run three_page_viewer [PdfNext]"
    then have "pageNum (pdf_run three_page_viewer [PdfNext, PdfNext])
                 = pageNum (pdf_run three_page_viewer [PdfNext])"
      by simp
    then show False by (simp add: a b)
  qed
  show ?thesis
    using d by (simp add: init_three a b c) (simp add: three_page_viewer_def)
qed

text \<open>C7 on a document of three pages: forward to page 3, where a further next is ignored.\<close>

theorem C7_pdf_page_in_range_witness:
  "initPdfViewer three_page_pdf (Inr \<lparr> numPages = 3 \<rparr>) True True = PdfReady three_page_viewer
   \<and> 1 \<le> numPages \<lparr> numPages = 3 \<rparr>
   \<and> pageNum (pdf_run three_page_viewer []) = 1
   \<and> pdf_step (pdf_run three_page_viewer []) PdfPrev = pdf_run three_page_viewer []
   \<and> page_in_range (pdf_run three_page_viewer
        [PdfNext, PdfSettle 0 True, PdfSettle 0 True, PdfKey ''ArrowRight'', PdfNext])
   \<and> pageNum (pdf_run three_page_viewer
        [PdfNext, PdfSettle 0 True, PdfSettle 0 True, PdfKey ''ArrowRight'', PdfNext]) = 3"
proof -
  have a: "pageNum (pdf_run three_page_viewer []) = 1"
    by (simp add: pdf_run_def three_page_viewer_def)
  have b: "pageNum (pdf_run three_page_viewer
        [PdfNext, PdfSettle 0 True, PdfSettle 0 True, PdfKey ''ArrowRight'', PdfNext]) = 3"
    by (simp add: pdf_eval)
  from C7_pdf_page_in_range[OF init_three, of "[]"]
    C7_pdf_page_in_range[OF init_three,
      of "[PdfNext, PdfSettle 0 True, PdfSettle 0 True, PdfKey ''ArrowRight'', PdfNext]"]
  show ?thesis
    using a b by (simp add: init_three)
qed

text \<open>
  C10 on the document of three pages: the fetch of page 2 fails; a resize, a click on
  previous and the fullscreen timer draw nothing, the canvas keeps page 1.
\<close>

theorem C10_failed_render_blocks_rendering_witness:
  "initPdfViewer three_page_pdf (Inr \<lparr> numPages = 3 \<rparr>) True True = PdfReady three_page_viewer
   \<and> 0 < length (inflight (pdf_run three_page_viewer [PdfNext]))
   \<and> rendering (pdf_run (settle 0 False (pdf_run three_page_viewer [PdfNext]))
        [PdfResize, PdfPrev, PdfFsTimer])
   \<and> canvas (pdf_run (settle 0 False (pdf_run three_page_viewer [PdfNext]))
        [PdfResize, PdfPrev, PdfFsTimer]) = Some 1
   \<and> renderPage 1 (pdf_run (settle 0 False (pdf_run three_page_viewer [PdfNext]))
        [PdfResize, PdfPrev, PdfFsTimer])
       = pdf_run (settle 0 False (pdf_run three_page_viewer [PdfNext]))
           [PdfResize, PdfPrev, PdfFsTimer]"
proof -
  have a: "inflight (pdf_run three_page_viewer [PdfNext]) = [AwaitGetPage 2]"
    by (simp add: pdf_eval)
  have b: "shown (pdf_run three_page_viewer [PdfNext]) = shown three_page_viewer"
    by (simp add: pdf_eval shown_def)
  have c: "canvas three_page_viewer = Some 1"
    by (simp add: three_page_viewer_def)
  from C10_failed_render_blocks_rendering[OF init_three, of 0 "[PdfNext]"
      "[PdfResize, PdfPrev, PdfFsTimer]" 1]
  show ?thesis
    using a b c by (simp add: init_three shown_def)
qed


section \<open>Initialisation: properties\<close>








lemma load_app_cases:
  "(\<exists>e. initSlidePlayer w = Inl e \<and> load_app w = Inl e)
   \<or> (\<exists>sp. initSlidePlayer w = Inr sp
          \<and> load_app w = Inr \<lparr> slide_widget = sp, game_widget = initGameBoard w \<rparr>)"
  by (cases "initSlidePlayer w") (simp_all add: load_app_def)











end
